theory Spec2Isabelle
  imports Main
begin

section \<open>The IMDB movie reviews dataset adapter (tensorflow\_datasets/text/imdb.py)\<close>

subsection \<open>Python primitives the adapter calls\<close>

text \<open>
  \<^verbatim>\<open>str.startswith\<close> and \<^verbatim>\<open>str.endswith\<close>, as \<^verbatim>\<open>os.path.join\<close> uses them.
\<close>

definition startswith :: "string \<Rightarrow> string \<Rightarrow> bool" where
  "startswith s prefix = (take (length prefix) s = prefix)"

definition endswith :: "string \<Rightarrow> string \<Rightarrow> bool" where
  "endswith s suffix = (drop (length s - length suffix) s = suffix)"

text \<open>
  \<^verbatim>\<open>os.path.join(a, *p)\<close> of the POSIX path module: a component that starts with the
  separator replaces what was joined so far, an empty path or one that ends with the
  separator takes the component as it is, any other path takes the separator first.
\<close>

fun os_path_join :: "string \<Rightarrow> string list \<Rightarrow> string" where
  "os_path_join path [] = path"
| "os_path_join path (b # p) =
     os_path_join
       (if startswith b ''/'' then b
        else if path = [] \<or> endswith path ''/'' then path @ b
        else path @ ''/'' @ b) p"

text \<open>
  \<^verbatim>\<open>s.strip()\<close>: the longest run of whitespace is dropped at each end of the text.
  Which characters are whitespace depends on the text type \<^verbatim>\<open>read()\<close> returns (six
  ASCII characters for a byte string, the Unicode whitespace for a text string), so the
  predicate \<open>isspace\<close> is an argument.
\<close>

definition strip :: "(char \<Rightarrow> bool) \<Rightarrow> string \<Rightarrow> string" where
  "strip isspace s = rev (dropWhile isspace (rev (dropWhile isspace s)))"

text \<open>The whitespace of a byte string: space, tab, line feed, carriage return, vertical
  tab and form feed.\<close>

definition ascii_isspace :: "char \<Rightarrow> bool" where
  "ascii_isspace c =
     (c = CHR '' '' \<or> c = CHR 0x09 \<or> c = CHR 0x0A \<or> c = CHR 0x0D \<or> c = CHR 0x0B \<or> c = CHR 0x0C)"

subsection \<open>Errors and the file system\<close>

text \<open>
  What the adapter can raise: the errors of \<^verbatim>\<open>tf.gfile\<close> (a directory or a file that is
  not there, any other failure to list, open, read or decode), a failed download, the
  \<^verbatim>\<open>KeyError\<close> of a dictionary lookup and the \<^verbatim>\<open>AttributeError\<close> of a method
  that an object does not have.
\<close>

datatype error =
    NotFoundError string
  | OpError string
  | DownloadError string
  | KeyError string
  | AttributeError string

text \<open>
  The file system as the adapter sees it while it runs: \<^verbatim>\<open>tf.gfile.ListDirectory(d)\<close>
  gives the entries of a directory in the order the listing returns them, and
  \<^verbatim>\<open>tf.gfile.Open(p)\<close> followed by \<^verbatim>\<open>read()\<close> gives the whole content of a file. Either
  can fail.
\<close>

record filesystem =
  ListDirectory :: "string \<Rightarrow> error + string list"
  Open_read :: "string \<Rightarrow> error + string"

subsection \<open>The example generator\<close>

text \<open>
  A generator is modelled by what its consumer sees when it runs it to the end: the
  values yielded, in order, and the error that ended it, if one did (\<open>None\<close> when the
  generator is exhausted normally).

  The inner loop of \<^verbatim>\<open>_generate_examples\<close>, over the file names of one directory
  \<open>d\<close>: each file is opened and read, its content stripped, and the dictionary
  \<^verbatim>\<open>{"text": text, "label": label}\<close> handed to the framework's \<^verbatim>\<open>encode_example\<close>
  (an argument here: the feature encoders are not part of this file); the result is
  yielded. A failing read ends the generator there.
\<close>

fun examples_of_files ::
  "(char \<Rightarrow> bool) \<Rightarrow> ((string \<rightharpoonup> string) \<Rightarrow> 'r) \<Rightarrow> filesystem \<Rightarrow>
   string \<Rightarrow> string \<Rightarrow> string list \<Rightarrow> 'r list \<times> error option" where
  "examples_of_files isspace encode_example fs d label [] = ([], None)"
| "examples_of_files isspace encode_example fs d label (filename # rest) =
     (case Open_read fs (os_path_join d [filename]) of
        Inl e \<Rightarrow> ([], Some e)
      | Inr content \<Rightarrow>
          (let text = strip isspace content;
               ex = encode_example [''text'' \<mapsto> text, ''label'' \<mapsto> label]
           in case examples_of_files isspace encode_example fs d label rest of
                (exs, err) \<Rightarrow> (ex # exs, err)))"

text \<open>
  The outer loop, over the (directory, label) pairs: the directory is listed when the
  loop reaches it, so a failure in one directory leaves the later ones untouched.
\<close>

fun examples_of_dirs ::
  "(char \<Rightarrow> bool) \<Rightarrow> ((string \<rightharpoonup> string) \<Rightarrow> 'r) \<Rightarrow> filesystem \<Rightarrow>
   (string \<times> string) list \<Rightarrow> 'r list \<times> error option" where
  "examples_of_dirs isspace encode_example fs [] = ([], None)"
| "examples_of_dirs isspace encode_example fs ((d, label) # rest) =
     (case ListDirectory fs d of
        Inl e \<Rightarrow> ([], Some e)
      | Inr filenames \<Rightarrow>
          (case examples_of_files isspace encode_example fs d label filenames of
             (exs, Some e) \<Rightarrow> (exs, Some e)
           | (exs, None) \<Rightarrow>
               (case examples_of_dirs isspace encode_example fs rest of
                  (exs', err) \<Rightarrow> (exs @ exs', err))))"

definition generate_examples ::
  "(char \<Rightarrow> bool) \<Rightarrow> ((string \<rightharpoonup> string) \<Rightarrow> 'r) \<Rightarrow> filesystem \<Rightarrow>
   string \<Rightarrow> 'r list \<times> error option" where
  "generate_examples isspace encode_example fs directory =
     (let pos_dir = os_path_join directory [''pos''];
          neg_dir = os_path_join directory [''neg'']
      in examples_of_dirs isspace encode_example fs [(pos_dir, ''pos''), (neg_dir, ''neg'')])"

subsection \<open>The vocabulary feeder\<close>

text \<open>
  \<^verbatim>\<open>for ex in gen: yield ex["text"]\<close> over a generator \<open>gen\<close>: the lookup raises
  \<^verbatim>\<open>KeyError\<close> on an encoded example with no such key, and the error that ends
  \<open>gen\<close> ends this generator too.
\<close>

fun yield_text :: "(string \<rightharpoonup> 'v) list \<times> error option \<Rightarrow> 'v list \<times> error option" where
  "yield_text ([], err) = ([], err)"
| "yield_text (ex # exs, err) =
     (case ex ''text'' of
        None \<Rightarrow> ([], Some (KeyError ''text''))
      | Some t \<Rightarrow> (case yield_text (exs, err) of (ts, err') \<Rightarrow> (t # ts, err')))"

definition vocab_text_gen ::
  "(char \<Rightarrow> bool) \<Rightarrow> ((string \<rightharpoonup> string) \<Rightarrow> (string \<rightharpoonup> 'v)) \<Rightarrow> filesystem \<Rightarrow>
   string \<Rightarrow> 'v list \<times> error option" where
  "vocab_text_gen isspace encode_example fs train_dir =
     yield_text (generate_examples isspace encode_example fs train_dir)"

subsection \<open>Configurations\<close>

text \<open>
  The text encoder configuration of the framework, with the fields this file sets: an
  encoder instance, an encoder class to be instantiated later, and the vocabulary size
  for that class. \<^verbatim>\<open>TextEncoderConfig()\<close> leaves all three unset.
\<close>

datatype encoder = ByteTextEncoder

datatype encoder_cls = SubwordTextEncoder

record TextEncoderConfig =
  encoder :: "encoder option"
  encoder_cls :: "encoder_cls option"
  vocab_size :: "nat option"

record IMDBReviewsConfig =
  name :: string
  version :: string
  description :: string
  text_encoder_config :: TextEncoderConfig

text \<open>
  \<^verbatim>\<open>IMDBReviewsConfig.__init__\<close>: a missing \<^verbatim>\<open>text_encoder_config\<close> becomes the default
  configuration (\<^verbatim>\<open>text_encoder_config or TextEncoderConfig()\<close>).
\<close>

definition IMDBReviewsConfig_init ::
  "string \<Rightarrow> string \<Rightarrow> string \<Rightarrow> TextEncoderConfig option \<Rightarrow> IMDBReviewsConfig" where
  "IMDBReviewsConfig_init n v d config_arg =
     \<lparr>name = n, version = v, description = d,
      text_encoder_config =
        (case config_arg of
           None \<Rightarrow> \<lparr>encoder = None, encoder_cls = None, vocab_size = None\<rparr>
         | Some c \<Rightarrow> c)\<rparr>"

definition BUILDER_CONFIGS :: "IMDBReviewsConfig list" where
  "BUILDER_CONFIGS =
     [IMDBReviewsConfig_init ''plain_text'' ''0.0.1'' ''Plain text'' None,
      IMDBReviewsConfig_init ''bytes'' ''0.0.1''
        (''Uses byte-level text encoding with '' @ [CHR 0x60] @
         ''tfds.features.text.ByteTextEncoder'' @ [CHR 0x60])
        (Some \<lparr>encoder = Some ByteTextEncoder, encoder_cls = None, vocab_size = None\<rparr>),
      IMDBReviewsConfig_init ''subwords8k'' ''0.0.1''
        (''Uses '' @ [CHR 0x60] @ ''tfds.features.text.SubwordTextEncoder'' @ [CHR 0x60] @
         '' with 8k vocab size'')
        (Some \<lparr>encoder = None, encoder_cls = Some SubwordTextEncoder,
               vocab_size = Some (2 ^ 13)\<rparr>),
      IMDBReviewsConfig_init ''subwords32k'' ''0.0.1''
        (''Uses '' @ [CHR 0x60] @ ''tfds.features.text.SubwordTextEncoder'' @ [CHR 0x60] @
         '' with 32k vocab size'')
        (Some \<lparr>encoder = None, encoder_cls = Some SubwordTextEncoder,
               vocab_size = Some (2 ^ 15)\<rparr>)]"

subsection \<open>Dataset metadata\<close>

definition DESCRIPTION :: string where
  "DESCRIPTION =
     ''Large Movie Review Dataset.'' @ [CHR 0x0A] @
     ''This is a dataset for binary sentiment classification containing substantially '' @
     ''more data than previous benchmark datasets. We provide a set of 25,000 highly '' @
     ''polar movie reviews for training, and 25,000 for testing.''"

definition CITATION :: string where
  "CITATION =
     ''@InProceedings{maas-EtAl:2011:ACL-HLT2011,'' @ [CHR 0x0A] @
     ''  author    = {Maas, Andrew L.  and  Daly, Raymond E.  and  Pham, Peter T.  and  Huang, Dan  and  Ng, Andrew Y.  and  Potts, Christopher},'' @ [CHR 0x0A] @
     ''  title     = {Learning Word Vectors for Sentiment Analysis},'' @ [CHR 0x0A] @
     ''  booktitle = {Proceedings of the 49th Annual Meeting of the Association for Computational Linguistics: Human Language Technologies},'' @ [CHR 0x0A] @
     ''  month     = {June},'' @ [CHR 0x0A] @
     ''  year      = {2011},'' @ [CHR 0x0A] @
     ''  address   = {Portland, Oregon, USA},'' @ [CHR 0x0A] @
     ''  publisher = {Association for Computational Linguistics},'' @ [CHR 0x0A] @
     ''  pages     = {142--150},'' @ [CHR 0x0A] @
     ''  url       = {http://www.aclweb.org/anthology/P11-1015}'' @ [CHR 0x0A] @
     ''}'' @ [CHR 0x0A]"

definition DOWNLOAD_URL :: string where
  "DOWNLOAD_URL = ''http://ai.stanford.edu/~amaas/data/sentiment/aclImdb_v1.tar.gz''"

text \<open>\<^verbatim>\<open>tfds.units.MiB\<close>, the number of bytes in a mebibyte.\<close>

definition MiB :: nat where
  "MiB = 2 ^ 20"

text \<open>
  The features of the dataset: a text feature with its encoder configuration, or a class
  label with the list of its class names.
\<close>

datatype feature = Text TextEncoderConfig | ClassLabel "string list"

text \<open>
  The dataset metadata, with the arguments \<^verbatim>\<open>_info\<close> gives it; \<^verbatim>\<open>name\<close>,
  \<^verbatim>\<open>description\<close> and \<^verbatim>\<open>version\<close> are the fields \<open>info_name\<close>,
  \<open>info_description\<close> and \<open>info_version\<close> here.
\<close>

record DatasetInfo =
  info_name :: string
  info_description :: string
  info_version :: string
  config_name :: string
  features :: "(string \<times> feature) list"
  supervised_keys :: "string \<times> string"
  urls :: "string list"
  size_in_bytes :: nat
  citation :: string

text \<open>
  \<^verbatim>\<open>_info\<close>, for a builder whose name is \<open>self_name\<close> and whose active configuration
  is \<open>builder_config\<close>.
\<close>

definition info :: "string \<Rightarrow> IMDBReviewsConfig \<Rightarrow> DatasetInfo" where
  "info self_name builder_config =
     \<lparr>info_name = self_name,
      info_description = DESCRIPTION,
      info_version = version builder_config,
      config_name = name builder_config,
      features =
        [(''text'', Text (text_encoder_config builder_config)),
         (''label'', ClassLabel [''neg'', ''pos''])],
      supervised_keys = (''text'', ''label''),
      urls = [''http://ai.stanford.edu/~amaas/data/sentiment/''],
      size_in_bytes = 85 * MiB,
      citation = CITATION\<rparr>"

subsection \<open>Split setup\<close>

text \<open>
  The split names of the framework (\<^verbatim>\<open>tfds.Split\<close>) and a split generator with the
  arguments this file gives it. Its \<^verbatim>\<open>name\<close> is the field \<open>split_name\<close> here, the
  configuration having a field \<open>name\<close> already.
\<close>

datatype Split = TRAIN | VALIDATION | TEST

record SplitGenerator =
  split_name :: Split
  num_shards :: nat
  gen_kwargs :: "(string \<times> string) list"

text \<open>
  Modelled from the spec: the framework's \<^verbatim>\<open>maybe_build_from_corpus\<close> of the text
  feature is called here and defined elsewhere. By the spec, vocabulary building is
  invoked on the corpus only when the configuration's text-encoding strategy needs a
  learned vocabulary (the subword variants), and never for the plain-text or byte-level
  ones; no error is swallowed. The invocations are kept as a list, one entry per
  invocation, with the vocabulary size asked for and the texts the corpus generator
  yielded; an error that ends the corpus generator is raised to the caller. A feature
  that is no text feature has no such method.
\<close>

fun maybe_build_from_corpus ::
  "feature \<Rightarrow> 'v list \<times> error option \<Rightarrow> (nat option \<times> 'v list) list \<Rightarrow>
   error option \<times> (nat option \<times> 'v list) list" where
  "maybe_build_from_corpus (Text config) corpus_generator vocab_builds =
     (if encoder_cls config = Some SubwordTextEncoder then
        (case corpus_generator of
           (texts, err) \<Rightarrow> (err, vocab_builds @ [(vocab_size config, texts)]))
      else (None, vocab_builds))"
| "maybe_build_from_corpus (ClassLabel names) corpus_generator vocab_builds =
     (Some (AttributeError ''maybe_build_from_corpus''), vocab_builds)"

text \<open>
  \<^verbatim>\<open>_split_generators\<close>. The download manager's \<^verbatim>\<open>download_and_extract\<close> is an
  argument and can fail; \<open>fs\<close> is the file system once the archive is extracted. The
  result is the list of split generators, or the error raised, together with the
  invocations of vocabulary building so far.
\<close>

definition split_generators ::
  "string \<Rightarrow> IMDBReviewsConfig \<Rightarrow> (string \<Rightarrow> error + string) \<Rightarrow>
   (char \<Rightarrow> bool) \<Rightarrow> ((string \<rightharpoonup> string) \<Rightarrow> (string \<rightharpoonup> 'v)) \<Rightarrow> filesystem \<Rightarrow>
   (nat option \<times> 'v list) list \<Rightarrow>
   (error + SplitGenerator list) \<times> (nat option \<times> 'v list) list" where
  "split_generators self_name builder_config download_and_extract
       isspace encode_example fs vocab_builds =
     (case download_and_extract DOWNLOAD_URL of
        Inl e \<Rightarrow> (Inl e, vocab_builds)
      | Inr imdb_path \<Rightarrow>
          (let train_dir = os_path_join imdb_path [''aclImdb'', ''train''];
               test_dir = os_path_join imdb_path [''aclImdb'', ''test'']
           in case map_of (features (info self_name builder_config)) ''text'' of
                None \<Rightarrow> (Inl (KeyError ''text''), vocab_builds)
              | Some text_feature \<Rightarrow>
                  (case maybe_build_from_corpus text_feature
                          (vocab_text_gen isspace encode_example fs train_dir) vocab_builds of
                     (Some e, vocab_builds') \<Rightarrow> (Inl e, vocab_builds')
                   | (None, vocab_builds') \<Rightarrow>
                       (Inr [\<lparr>split_name = TRAIN, num_shards = 10,
                               gen_kwargs = [(''directory'', train_dir)]\<rparr>,
                             \<lparr>split_name = TEST, num_shards = 10,
                               gen_kwargs = [(''directory'', test_dir)]\<rparr>],
                        vocab_builds'))))"

subsection \<open>File systems given by their directories and files\<close>

text \<open>
  A file system with the listed directories (each with its entries, in listing order)
  and the listed files (each with its content); nothing else can be listed or read.
\<close>

definition fs_of :: "(string \<times> string list) list \<Rightarrow> (string \<times> string) list \<Rightarrow> filesystem" where
  "fs_of dirs files =
     \<lparr>ListDirectory =
        (\<lambda>d. case map_of dirs d of None \<Rightarrow> Inl (NotFoundError d) | Some names \<Rightarrow> Inr names),
      Open_read =
        (\<lambda>p. case map_of files p of None \<Rightarrow> Inl (NotFoundError p) | Some content \<Rightarrow> Inr content)\<rparr>"

text \<open>Two positive reviews and a negative one under \<open>directory\<close>.\<close>

definition three_reviews :: "string \<Rightarrow> filesystem" where
  "three_reviews directory =
     fs_of
       [(directory @ ''/pos'', [''0_9.txt'', ''1_7.txt'']),
        (directory @ ''/neg'', [''2_1.txt''])]
       [(directory @ ''/pos/0_9.txt'', ''Great movie!'' @ [CHR 0x0A]),
        (directory @ ''/pos/1_7.txt'', ''  Loved it. ''),
        (directory @ ''/neg/2_1.txt'', [CHR 0x09] @ ''Dull.'' @ [CHR 0x0D, CHR 0x0A])]"

text \<open>The same reviews, beside a directory the generator never looks at.\<close>

definition three_reviews_and_more :: "string \<Rightarrow> filesystem" where
  "three_reviews_and_more directory =
     fs_of
       [(directory @ ''/pos'', [''0_9.txt'', ''1_7.txt'']),
        (directory @ ''/neg'', [''2_1.txt'']),
        (directory @ ''/unsup'', [''5_0.txt''])]
       [(directory @ ''/pos/0_9.txt'', ''Great movie!'' @ [CHR 0x0A]),
        (directory @ ''/pos/1_7.txt'', ''  Loved it. ''),
        (directory @ ''/neg/2_1.txt'', [CHR 0x09] @ ''Dull.'' @ [CHR 0x0D, CHR 0x0A]),
        (directory @ ''/unsup/5_0.txt'', ''Unlabelled.'')]"

text \<open>The scenario of a single positive review and no negative one.\<close>

definition one_review :: filesystem where
  "one_review =
     fs_of [(''train/pos'', [''0_9.txt'']), (''train/neg'', [])]
           [(''train/pos/0_9.txt'', ''Great movie!'' @ [CHR 0x0A])]"

text \<open>The second positive review is listed and cannot be read.\<close>

definition unreadable_pos :: filesystem where
  "unreadable_pos =
     fs_of
       [(''train/pos'', [''0_9.txt'', ''1_7.txt'', ''3_8.txt'']), (''train/neg'', [''2_1.txt''])]
       [(''train/pos/0_9.txt'', ''Great movie!'' @ [CHR 0x0A]),
        (''train/pos/3_8.txt'', ''Fine.''),
        (''train/neg/2_1.txt'', ''Dull.'')]"

text \<open>The first negative review is listed and cannot be read.\<close>

definition unreadable_neg :: filesystem where
  "unreadable_neg =
     fs_of
       [(''train/pos'', [''0_9.txt'']), (''train/neg'', [''2_1.txt'', ''4_3.txt''])]
       [(''train/pos/0_9.txt'', ''Great movie!'' @ [CHR 0x0A]),
        (''train/neg/4_3.txt'', ''Weak.'')]"

text \<open>A download manager that extracts the archive of the dataset to \<open>/data\<close>.\<close>

definition extract_to_data :: "string \<Rightarrow> error + string" where
  "extract_to_data url =
     (if url = DOWNLOAD_URL then Inr ''/data'' else Inl (DownloadError url))"

section \<open>Properties\<close>

subsection \<open>Stripping\<close>

lemma dropWhile_hd_id: "xs = [] \<or> \<not> P (hd xs) \<Longrightarrow> dropWhile P xs = xs"
  by (cases xs) auto

lemma strip_append_trail:
  "dropWhile isspace s = strip isspace s @ rev (takeWhile isspace (rev (dropWhile isspace s)))"
proof -
  let ?t = "dropWhile isspace s"
  have "rev ?t = takeWhile isspace (rev ?t) @ dropWhile isspace (rev ?t)" by simp
  from arg_cong [OF this, of rev] show ?thesis
    unfolding strip_def by (simp del: takeWhile_dropWhile_id)
qed

lemma strip_decompose:
  "\<exists>lead trail. s = lead @ strip isspace s @ trail \<and>
     (\<forall>c\<in>set lead. isspace c) \<and> (\<forall>c\<in>set trail. isspace c)"
proof (intro exI conjI)
  show "s = takeWhile isspace s @ strip isspace s @
            rev (takeWhile isspace (rev (dropWhile isspace s)))"
    using strip_append_trail [of isspace s] by simp
  show "\<forall>c\<in>set (takeWhile isspace s). isspace c"
    by (auto dest: set_takeWhileD)
  show "\<forall>c\<in>set (rev (takeWhile isspace (rev (dropWhile isspace s)))). isspace c"
    by (auto dest: set_takeWhileD)
qed

lemma strip_ends:
  assumes "strip isspace s \<noteq> []"
  shows "\<not> isspace (hd (strip isspace s))" and "\<not> isspace (last (strip isspace s))"
proof -
  let ?t = "dropWhile isspace s"
  have "?t = [] \<Longrightarrow> strip isspace s = []"
    unfolding strip_def by (metis dropWhile.simps(1) rev.simps(1))
  then have t: "?t \<noteq> []" using assms by blast
  have "hd (strip isspace s) = hd ?t"
    using assms strip_append_trail [of isspace s] by (metis hd_append2)
  then show "\<not> isspace (hd (strip isspace s))" using t by (simp add: hd_dropWhile)
  have "dropWhile isspace (rev ?t) \<noteq> []" using assms by (simp add: strip_def)
  then have "\<not> isspace (hd (dropWhile isspace (rev ?t)))" by (rule hd_dropWhile)
  then show "\<not> isspace (last (strip isspace s))"
    using assms by (simp add: strip_def last_rev)
qed

lemma strip_idem: "strip isspace (strip isspace s) = strip isspace s"
proof -
  have "dropWhile isspace (strip isspace s) = strip isspace s"
    using strip_ends(1) [of isspace s] by (intro dropWhile_hd_id) blast
  then show ?thesis by (simp add: strip_def)
qed

subsection \<open>The loops of the example generator\<close>

text \<open>Paths are joined by \<open>os_path_join\<close> throughout; its equations are unfolded only
  where a concrete path is computed.\<close>

declare os_path_join.simps [simp del]

lemmas path_simps = os_path_join.simps startswith_def endswith_def

lemma examples_of_files_append:
  "examples_of_files isspace encode_example fs d label (xs @ ys) =
     (case examples_of_files isspace encode_example fs d label xs of
        (exs, Some e) \<Rightarrow> (exs, Some e)
      | (exs, None) \<Rightarrow>
          (exs @ fst (examples_of_files isspace encode_example fs d label ys),
           snd (examples_of_files isspace encode_example fs d label ys)))"
  by (induction xs) (auto simp: Let_def split: sum.splits prod.splits option.splits)

lemma examples_of_files_readable:
  assumes "\<forall>f\<in>set names. Open_read fs (os_path_join d [f]) = Inr (content f)"
  shows "examples_of_files isspace encode_example fs d label names =
           (map (\<lambda>f. encode_example [''text'' \<mapsto> strip isspace (content f), ''label'' \<mapsto> label])
              names, None)"
  using assms by (induction names) (auto simp: Let_def)

lemma examples_of_files_unreadable:
  assumes "\<forall>f\<in>set before. Open_read fs (os_path_join d [f]) = Inr (content f)"
    and "Open_read fs (os_path_join d [bad]) = Inl e"
  shows "examples_of_files isspace encode_example fs d label (before @ bad # after) =
           (map (\<lambda>f. encode_example [''text'' \<mapsto> strip isspace (content f), ''label'' \<mapsto> label])
              before, Some e)"
  using assms(2)
  by (simp add: examples_of_files_append examples_of_files_readable [OF assms(1)])

lemma examples_of_files_some_unreadable:
  assumes "\<exists>f\<in>set names. \<exists>e. Open_read fs (os_path_join d [f]) = Inl e"
  shows "\<exists>before bad after e. names = before @ bad # after \<and>
           Open_read fs (os_path_join d [bad]) = Inl e \<and>
           examples_of_files isspace encode_example fs d label names =
             (map (\<lambda>f. encode_example
                     [''text'' \<mapsto> strip isspace (projr (Open_read fs (os_path_join d [f]))),
                      ''label'' \<mapsto> label]) before, Some e)"
proof -
  from assms have "\<exists>f\<in>set names. isl (Open_read fs (os_path_join d [f]))"
    by (auto simp: isl_def)
  then obtain before bad after where split: "names = before @ bad # after"
    and bad: "isl (Open_read fs (os_path_join d [bad]))"
    and before: "\<forall>f\<in>set before. \<not> isl (Open_read fs (os_path_join d [f]))"
    using split_list_first_prop [of names "\<lambda>f. isl (Open_read fs (os_path_join d [f]))"]
    by blast
  from bad obtain e where e: "Open_read fs (os_path_join d [bad]) = Inl e"
    by (auto simp: isl_def)
  have "\<forall>f\<in>set before. Open_read fs (os_path_join d [f]) =
          Inr (projr (Open_read fs (os_path_join d [f])))"
    using before by simp
  from examples_of_files_unreadable [OF this e, of isspace encode_example label after]
  show ?thesis using split e by blast
qed

lemma examples_of_files_reached:
  assumes "\<forall>f\<in>set before. Open_read fs (os_path_join d [f]) = Inr (content f)"
    and "Open_read fs (os_path_join d [filename]) = Inr c"
  shows "fst (examples_of_files isspace encode_example fs d label (before @ filename # after)) =
           map (\<lambda>f. encode_example [''text'' \<mapsto> strip isspace (content f), ''label'' \<mapsto> label])
             before @
           encode_example [''text'' \<mapsto> strip isspace c, ''label'' \<mapsto> label] #
           fst (examples_of_files isspace encode_example fs d label after)"
  using assms(2)
  by (simp add: examples_of_files_append examples_of_files_readable [OF assms(1)] Let_def
      split: prod.splits)

lemma examples_of_files_provenance:
  "\<exists>raw. fst (examples_of_files isspace encode_example fs d label names) = map encode_example raw \<and>
     (\<forall>ex\<in>set raw. \<exists>f\<in>set names. \<exists>content.
        Open_read fs (os_path_join d [f]) = Inr content \<and>
        ex = [''text'' \<mapsto> strip isspace content, ''label'' \<mapsto> label])"
proof (induction names)
  case Nil
  show ?case by simp
next
  case (Cons f names)
  then obtain raw where raw:
    "fst (examples_of_files isspace encode_example fs d label names) = map encode_example raw"
    "\<forall>ex\<in>set raw. \<exists>f\<in>set names. \<exists>content.
        Open_read fs (os_path_join d [f]) = Inr content \<and>
        ex = [''text'' \<mapsto> strip isspace content, ''label'' \<mapsto> label]"
    by blast
  show ?case
  proof (cases "Open_read fs (os_path_join d [f])")
    case (Inl e)
    then show ?thesis by simp
  next
    case (Inr content)
    let ?ex = "[''text'' \<mapsto> strip isspace content, ''label'' \<mapsto> label]"
    have "fst (examples_of_files isspace encode_example fs d label (f # names)) =
            map encode_example (?ex # raw)"
      using Inr raw(1)
      by (cases "examples_of_files isspace encode_example fs d label names") (simp add: Let_def)
    moreover have "\<forall>ex\<in>set (?ex # raw). \<exists>g\<in>set (f # names). \<exists>content.
        Open_read fs (os_path_join d [g]) = Inr content \<and>
        ex = [''text'' \<mapsto> strip isspace content, ''label'' \<mapsto> label]"
      using Inr raw(2) by auto
    ultimately show ?thesis by blast
  qed
qed

lemma examples_of_files_cong:
  assumes "\<forall>f\<in>set names. Open_read fs1 (os_path_join d [f]) = Open_read fs2 (os_path_join d [f])"
  shows "examples_of_files isspace encode_example fs1 d label names =
         examples_of_files isspace encode_example fs2 d label names"
  using assms by (induction names) (auto simp: Let_def split: sum.splits)

lemma generate_examples_unfold:
  "generate_examples isspace encode_example fs directory =
     (case ListDirectory fs (os_path_join directory [''pos'']) of
        Inl e \<Rightarrow> ([], Some e)
      | Inr pos_files \<Rightarrow>
          (case examples_of_files isspace encode_example fs
                  (os_path_join directory [''pos'']) ''pos'' pos_files of
             (exs, Some e) \<Rightarrow> (exs, Some e)
           | (exs, None) \<Rightarrow>
               (case ListDirectory fs (os_path_join directory [''neg'']) of
                  Inl e \<Rightarrow> (exs, Some e)
                | Inr neg_files \<Rightarrow>
                    (exs @ fst (examples_of_files isspace encode_example fs
                                  (os_path_join directory [''neg'']) ''neg'' neg_files),
                     snd (examples_of_files isspace encode_example fs
                            (os_path_join directory [''neg'']) ''neg'' neg_files)))))"
  by (simp add: generate_examples_def Let_def split: sum.splits prod.splits option.splits)

lemma generate_examples_pos_first:
  assumes "ListDirectory fs (os_path_join directory [''pos'']) = Inr pos_files"
  shows "\<exists>more. fst (generate_examples isspace encode_example fs directory) =
           fst (examples_of_files isspace encode_example fs
                  (os_path_join directory [''pos'']) ''pos'' pos_files) @ more"
  using assms
  by (simp add: generate_examples_unfold split: sum.splits prod.splits option.splits)

lemma generate_examples_provenance:
  "\<exists>raw. fst (generate_examples isspace encode_example fs directory) = map encode_example raw \<and>
     (\<forall>ex\<in>set raw. \<exists>d label names filename content.
        (d = os_path_join directory [''pos''] \<and> label = ''pos'' \<or>
         d = os_path_join directory [''neg''] \<and> label = ''neg'') \<and>
        ListDirectory fs d = Inr names \<and> filename \<in> set names \<and>
        Open_read fs (os_path_join d [filename]) = Inr content \<and>
        ex = [''text'' \<mapsto> strip isspace content, ''label'' \<mapsto> label])"
proof -
  let ?pos = "os_path_join directory [''pos'']" and ?neg = "os_path_join directory [''neg'']"
  let ?P = "\<lambda>ex. \<exists>d label names filename content.
        (d = ?pos \<and> label = ''pos'' \<or> d = ?neg \<and> label = ''neg'') \<and>
        ListDirectory fs d = Inr names \<and> filename \<in> set names \<and>
        Open_read fs (os_path_join d [filename]) = Inr content \<and>
        ex = [''text'' \<mapsto> strip isspace content, ''label'' \<mapsto> label]"
  have from_dir: "\<exists>raw. fst (examples_of_files isspace encode_example fs d label names) =
                   map encode_example raw \<and> (\<forall>ex\<in>set raw. ?P ex)"
    if "ListDirectory fs d = Inr names" "d = ?pos \<and> label = ''pos'' \<or> d = ?neg \<and> label = ''neg''"
    for d label names
  proof -
    obtain raw where raw:
      "fst (examples_of_files isspace encode_example fs d label names) = map encode_example raw"
      "\<forall>ex\<in>set raw. \<exists>f\<in>set names. \<exists>content.
         Open_read fs (os_path_join d [f]) = Inr content \<and>
         ex = [''text'' \<mapsto> strip isspace content, ''label'' \<mapsto> label]"
      using examples_of_files_provenance [of isspace encode_example fs d label names] by blast
    have "\<forall>ex\<in>set raw. ?P ex"
    proof
      fix ex assume "ex \<in> set raw"
      with raw(2) obtain f content where "f \<in> set names"
        "Open_read fs (os_path_join d [f]) = Inr content"
        "ex = [''text'' \<mapsto> strip isspace content, ''label'' \<mapsto> label]"
        by blast
      with that show "?P ex"
        by (intro exI [of _ d] exI [of _ label] exI [of _ names] exI [of _ f] exI [of _ content])
           simp
    qed
    with raw(1) show ?thesis by blast
  qed
  show ?thesis
  proof (cases "ListDirectory fs ?pos")
    case (Inl e)
    then have "fst (generate_examples isspace encode_example fs directory) = map encode_example []"
      by (simp add: generate_examples_unfold)
    then show ?thesis by (intro exI [of _ "[]"]) simp
  next
    case pos: (Inr pos_files)
    obtain raw1 where raw1:
      "fst (examples_of_files isspace encode_example fs ?pos ''pos'' pos_files) =
         map encode_example raw1" "\<forall>ex\<in>set raw1. ?P ex"
      using from_dir [OF pos] by blast
    obtain exs err where pos_run:
      "examples_of_files isspace encode_example fs ?pos ''pos'' pos_files = (exs, err)"
      by (cases "examples_of_files isspace encode_example fs ?pos ''pos'' pos_files")
    have exs: "exs = map encode_example raw1" using raw1(1) pos_run by simp
    show ?thesis
    proof (cases err)
      case (Some e)
      then have "fst (generate_examples isspace encode_example fs directory) = map encode_example raw1"
        by (simp add: generate_examples_unfold pos pos_run exs)
      with raw1(2) show ?thesis by blast
    next
      case None
      show ?thesis
      proof (cases "ListDirectory fs ?neg")
        case (Inl e)
        then have "fst (generate_examples isspace encode_example fs directory) =
                     map encode_example raw1"
          by (simp add: generate_examples_unfold pos pos_run exs None)
        with raw1(2) show ?thesis by blast
      next
        case neg: (Inr neg_files)
        obtain raw2 where raw2:
          "fst (examples_of_files isspace encode_example fs ?neg ''neg'' neg_files) =
             map encode_example raw2" "\<forall>ex\<in>set raw2. ?P ex"
          using from_dir [OF neg] by blast
        have "fst (generate_examples isspace encode_example fs directory) =
                map encode_example (raw1 @ raw2)"
          by (simp add: generate_examples_unfold pos pos_run exs None neg raw2(1))
        moreover have "\<forall>ex\<in>set (raw1 @ raw2). ?P ex"
          using raw1(2) raw2(2) by (simp add: ball_Un)
        ultimately show ?thesis by blast
      qed
    qed
  qed
qed

lemma generate_examples_pos_file:
  assumes "ListDirectory fs (os_path_join directory [''pos'']) = Inr (before @ filename # after)"
    and "\<forall>f\<in>set before.
           Open_read fs (os_path_join (os_path_join directory [''pos'']) [f]) = Inr (content f)"
    and "Open_read fs (os_path_join (os_path_join directory [''pos'']) [filename]) = Inr c"
  shows "length before < length (fst (generate_examples isspace encode_example fs directory)) \<and>
         fst (generate_examples isspace encode_example fs directory) ! length before =
           encode_example [''text'' \<mapsto> strip isspace c, ''label'' \<mapsto> ''pos'']"
proof -
  obtain more where "fst (generate_examples isspace encode_example fs directory) =
      fst (examples_of_files isspace encode_example fs (os_path_join directory [''pos'']) ''pos''
             (before @ filename # after)) @ more"
    using generate_examples_pos_first [OF assms(1), of isspace encode_example] by blast
  then have run: "fst (generate_examples isspace encode_example fs directory) =
      map (\<lambda>f. encode_example [''text'' \<mapsto> strip isspace (content f), ''label'' \<mapsto> ''pos'']) before @
      encode_example [''text'' \<mapsto> strip isspace c, ''label'' \<mapsto> ''pos''] #
      fst (examples_of_files isspace encode_example fs (os_path_join directory [''pos'']) ''pos'' after)
      @ more"
    by (simp add: examples_of_files_reached [OF assms(2) assms(3)])
  show ?thesis by (simp add: run nth_append)
qed

lemma generate_examples_neg_file:
  assumes "ListDirectory fs (os_path_join directory [''pos'']) = Inr pos_files"
    and "\<forall>f\<in>set pos_files.
           Open_read fs (os_path_join (os_path_join directory [''pos'']) [f]) = Inr (pos_content f)"
    and "ListDirectory fs (os_path_join directory [''neg'']) = Inr (before @ filename # after)"
    and "\<forall>f\<in>set before.
           Open_read fs (os_path_join (os_path_join directory [''neg'']) [f]) = Inr (content f)"
    and "Open_read fs (os_path_join (os_path_join directory [''neg'']) [filename]) = Inr c"
  shows "length pos_files + length before <
           length (fst (generate_examples isspace encode_example fs directory)) \<and>
         fst (generate_examples isspace encode_example fs directory) !
             (length pos_files + length before) =
           encode_example [''text'' \<mapsto> strip isspace c, ''label'' \<mapsto> ''neg'']"
proof -
  have run: "fst (generate_examples isspace encode_example fs directory) =
      map (\<lambda>f. encode_example [''text'' \<mapsto> strip isspace (pos_content f), ''label'' \<mapsto> ''pos''])
        pos_files @
      map (\<lambda>f. encode_example [''text'' \<mapsto> strip isspace (content f), ''label'' \<mapsto> ''neg'']) before @
      encode_example [''text'' \<mapsto> strip isspace c, ''label'' \<mapsto> ''neg''] #
      fst (examples_of_files isspace encode_example fs (os_path_join directory [''neg'']) ''neg'' after)"
    by (simp add: generate_examples_unfold assms(1) assms(3)
        examples_of_files_readable [OF assms(2)]
        examples_of_files_reached [OF assms(4) assms(5)])
  show ?thesis by (simp add: run nth_append)
qed

subsection \<open>Runs on the example file systems\<close>

lemma three_reviews_train:
  "ListDirectory (three_reviews ''train'') ''train/pos'' = Inr [''0_9.txt'', ''1_7.txt'']"
  "ListDirectory (three_reviews ''train'') ''train/neg'' = Inr [''2_1.txt'']"
  "Open_read (three_reviews ''train'') ''train/pos/0_9.txt'' = Inr (''Great movie!'' @ [CHR 0x0A])"
  "Open_read (three_reviews ''train'') ''train/pos/1_7.txt'' = Inr ''  Loved it. ''"
  "Open_read (three_reviews ''train'') ''train/neg/2_1.txt'' = Inr ([CHR 0x09] @ ''Dull.'' @ [CHR 0x0D, CHR 0x0A])"
  by (simp_all add: three_reviews_def fs_of_def)

lemma three_reviews_run:
  "generate_examples ascii_isspace (\<lambda>ex. ex) (three_reviews ''train'') ''train'' =
     ([[''text'' \<mapsto> ''Great movie!'', ''label'' \<mapsto> ''pos''],
       [''text'' \<mapsto> ''Loved it.'', ''label'' \<mapsto> ''pos''],
       [''text'' \<mapsto> ''Dull.'', ''label'' \<mapsto> ''neg'']], None)"
  by (simp add: generate_examples_unfold three_reviews_def fs_of_def path_simps Let_def
      strip_def ascii_isspace_def)

subsection \<open>The example generator\<close>

text \<open>
  C1. When the listing of the \<open>pos\<close> subdirectory gives \<open>N\<close> files and the listing of
  the \<open>neg\<close> subdirectory gives \<open>M\<close> files, each of which can be read, the generator
  ends normally after yielding exactly \<open>N + M\<close> examples: the first \<open>N\<close> are the
  encoded examples of the \<open>pos\<close> files, in listing order and with label \<open>pos\<close>, the
  other \<open>M\<close> those of the \<open>neg\<close> files, in listing order and with label \<open>neg\<close>.
\<close>

theorem generate_examples_count_and_labels:
  assumes "ListDirectory fs (os_path_join directory [''pos'']) = Inr pos_files"
    and "ListDirectory fs (os_path_join directory [''neg'']) = Inr neg_files"
    and "\<forall>f\<in>set pos_files.
           Open_read fs (os_path_join (os_path_join directory [''pos'']) [f]) = Inr (pos_content f)"
    and "\<forall>f\<in>set neg_files.
           Open_read fs (os_path_join (os_path_join directory [''neg'']) [f]) = Inr (neg_content f)"
  shows "snd (generate_examples isspace encode_example fs directory) = None \<and>
         length (fst (generate_examples isspace encode_example fs directory)) =
           length pos_files + length neg_files \<and>
         take (length pos_files) (fst (generate_examples isspace encode_example fs directory)) =
           map (\<lambda>f. encode_example [''text'' \<mapsto> strip isspace (pos_content f), ''label'' \<mapsto> ''pos''])
             pos_files \<and>
         drop (length pos_files) (fst (generate_examples isspace encode_example fs directory)) =
           map (\<lambda>f. encode_example [''text'' \<mapsto> strip isspace (neg_content f), ''label'' \<mapsto> ''neg''])
             neg_files"
proof -
  have "generate_examples isspace encode_example fs directory =
          (map (\<lambda>f. encode_example [''text'' \<mapsto> strip isspace (pos_content f), ''label'' \<mapsto> ''pos''])
             pos_files @
           map (\<lambda>f. encode_example [''text'' \<mapsto> strip isspace (neg_content f), ''label'' \<mapsto> ''neg''])
             neg_files, None)"
    by (simp add: generate_examples_unfold assms(1,2)
        examples_of_files_readable [OF assms(3)] examples_of_files_readable [OF assms(4)])
  then show ?thesis by simp
qed

theorem generate_examples_count_and_labels_witness:
  "snd (generate_examples ascii_isspace (\<lambda>ex. ex) (three_reviews ''train'') ''train'') = None \<and>
   length (fst (generate_examples ascii_isspace (\<lambda>ex. ex) (three_reviews ''train'') ''train'')) = 3 \<and>
   take 2 (fst (generate_examples ascii_isspace (\<lambda>ex. ex) (three_reviews ''train'') ''train'')) =
     [[''text'' \<mapsto> ''Great movie!'', ''label'' \<mapsto> ''pos''],
      [''text'' \<mapsto> ''Loved it.'', ''label'' \<mapsto> ''pos'']] \<and>
   drop 2 (fst (generate_examples ascii_isspace (\<lambda>ex. ex) (three_reviews ''train'') ''train'')) =
     [[''text'' \<mapsto> ''Dull.'', ''label'' \<mapsto> ''neg'']]"
  using generate_examples_count_and_labels
    [of "three_reviews ''train''" "''train''" "[''0_9.txt'', ''1_7.txt'']" "[''2_1.txt'']"
        "\<lambda>f. if f = ''0_9.txt'' then ''Great movie!'' @ [CHR 0x0A] else ''  Loved it. ''"
        "\<lambda>f. [CHR 0x09] @ ''Dull.'' @ [CHR 0x0D, CHR 0x0A]"
        ascii_isspace "\<lambda>ex. ex"]
  by (simp add: path_simps three_reviews_train strip_def ascii_isspace_def
      numeral_2_eq_2 numeral_3_eq_3)

text \<open>
  C2. Every file the generator processes gives an example whose text is the whole
  content of that file, stripped, and nothing else is done to it: a file listed under
  \<open>pos\<close> that the generator reaches (the files listed before it were read) and reads,
  with content \<open>c\<close>, gives at its own position in the run the encoding of the
  dictionary with text \<open>strip c\<close>; so does a file listed under \<open>neg\<close>, at its
  position after the \<open>pos\<close> files. Conversely every example yielded, whatever the file
  system holds, is the encoding of such a dictionary for a file that one of the two
  subdirectories lists and that was read. Stripping removes a run of whitespace at each
  end (the text is the content without a leading and a trailing part that are all
  whitespace, and what is left neither starts nor ends with whitespace), and stripping a
  stripped text changes nothing.
\<close>

theorem generate_examples_text_is_stripped_content:
  "(\<exists>raw. fst (generate_examples isspace encode_example fs directory) = map encode_example raw \<and>
      (\<forall>ex\<in>set raw. \<exists>d label names filename content.
         (d = os_path_join directory [''pos''] \<and> label = ''pos'' \<or>
          d = os_path_join directory [''neg''] \<and> label = ''neg'') \<and>
         ListDirectory fs d = Inr names \<and> filename \<in> set names \<and>
         Open_read fs (os_path_join d [filename]) = Inr content \<and>
         ex = [''text'' \<mapsto> strip isspace content, ''label'' \<mapsto> label])) \<and>
   (ListDirectory fs (os_path_join directory [''pos'']) = Inr (before @ filename # after) \<and>
    (\<forall>f\<in>set before.
       Open_read fs (os_path_join (os_path_join directory [''pos'']) [f]) = Inr (content f)) \<and>
    Open_read fs (os_path_join (os_path_join directory [''pos'']) [filename]) = Inr c
    \<longrightarrow>
    length before < length (fst (generate_examples isspace encode_example fs directory)) \<and>
    fst (generate_examples isspace encode_example fs directory) ! length before =
      encode_example [''text'' \<mapsto> strip isspace c, ''label'' \<mapsto> ''pos'']) \<and>
   (ListDirectory fs (os_path_join directory [''pos'']) = Inr pos_files \<and>
    (\<forall>f\<in>set pos_files.
       Open_read fs (os_path_join (os_path_join directory [''pos'']) [f]) = Inr (pos_content f)) \<and>
    ListDirectory fs (os_path_join directory [''neg'']) = Inr (before @ filename # after) \<and>
    (\<forall>f\<in>set before.
       Open_read fs (os_path_join (os_path_join directory [''neg'']) [f]) = Inr (content f)) \<and>
    Open_read fs (os_path_join (os_path_join directory [''neg'']) [filename]) = Inr c
    \<longrightarrow>
    length pos_files + length before <
      length (fst (generate_examples isspace encode_example fs directory)) \<and>
    fst (generate_examples isspace encode_example fs directory) ! (length pos_files + length before) =
      encode_example [''text'' \<mapsto> strip isspace c, ''label'' \<mapsto> ''neg'']) \<and>
   (\<exists>lead trail. s = lead @ strip isspace s @ trail \<and>
      (\<forall>c\<in>set lead. isspace c) \<and> (\<forall>c\<in>set trail. isspace c)) \<and>
   (strip isspace s \<noteq> [] \<longrightarrow>
      \<not> isspace (hd (strip isspace s)) \<and> \<not> isspace (last (strip isspace s))) \<and>
   strip isspace (strip isspace s) = strip isspace s"
proof -
  have provenance:
    "\<exists>raw. fst (generate_examples isspace encode_example fs directory) = map encode_example raw \<and>
      (\<forall>ex\<in>set raw. \<exists>d label names filename content.
         (d = os_path_join directory [''pos''] \<and> label = ''pos'' \<or>
          d = os_path_join directory [''neg''] \<and> label = ''neg'') \<and>
         ListDirectory fs d = Inr names \<and> filename \<in> set names \<and>
         Open_read fs (os_path_join d [filename]) = Inr content \<and>
         ex = [''text'' \<mapsto> strip isspace content, ''label'' \<mapsto> label])"
    by (rule generate_examples_provenance)
  have pos_file:
    "ListDirectory fs (os_path_join directory [''pos'']) = Inr (before @ filename # after) \<and>
     (\<forall>f\<in>set before.
        Open_read fs (os_path_join (os_path_join directory [''pos'']) [f]) = Inr (content f)) \<and>
     Open_read fs (os_path_join (os_path_join directory [''pos'']) [filename]) = Inr c
     \<longrightarrow>
     length before < length (fst (generate_examples isspace encode_example fs directory)) \<and>
     fst (generate_examples isspace encode_example fs directory) ! length before =
       encode_example [''text'' \<mapsto> strip isspace c, ''label'' \<mapsto> ''pos'']"
  proof
    assume a: "ListDirectory fs (os_path_join directory [''pos'']) = Inr (before @ filename # after) \<and>
     (\<forall>f\<in>set before.
        Open_read fs (os_path_join (os_path_join directory [''pos'']) [f]) = Inr (content f)) \<and>
     Open_read fs (os_path_join (os_path_join directory [''pos'']) [filename]) = Inr c"
    show "length before < length (fst (generate_examples isspace encode_example fs directory)) \<and>
     fst (generate_examples isspace encode_example fs directory) ! length before =
       encode_example [''text'' \<mapsto> strip isspace c, ''label'' \<mapsto> ''pos'']"
      by (rule generate_examples_pos_file
            [OF a [THEN conjunct1] a [THEN conjunct2, THEN conjunct1]
                a [THEN conjunct2, THEN conjunct2]])
  qed
  have neg_file:
    "ListDirectory fs (os_path_join directory [''pos'']) = Inr pos_files \<and>
     (\<forall>f\<in>set pos_files.
        Open_read fs (os_path_join (os_path_join directory [''pos'']) [f]) = Inr (pos_content f)) \<and>
     ListDirectory fs (os_path_join directory [''neg'']) = Inr (before @ filename # after) \<and>
     (\<forall>f\<in>set before.
        Open_read fs (os_path_join (os_path_join directory [''neg'']) [f]) = Inr (content f)) \<and>
     Open_read fs (os_path_join (os_path_join directory [''neg'']) [filename]) = Inr c
     \<longrightarrow>
     length pos_files + length before <
       length (fst (generate_examples isspace encode_example fs directory)) \<and>
     fst (generate_examples isspace encode_example fs directory) ! (length pos_files + length before) =
       encode_example [''text'' \<mapsto> strip isspace c, ''label'' \<mapsto> ''neg'']"
  proof
    assume a: "ListDirectory fs (os_path_join directory [''pos'']) = Inr pos_files \<and>
     (\<forall>f\<in>set pos_files.
        Open_read fs (os_path_join (os_path_join directory [''pos'']) [f]) = Inr (pos_content f)) \<and>
     ListDirectory fs (os_path_join directory [''neg'']) = Inr (before @ filename # after) \<and>
     (\<forall>f\<in>set before.
        Open_read fs (os_path_join (os_path_join directory [''neg'']) [f]) = Inr (content f)) \<and>
     Open_read fs (os_path_join (os_path_join directory [''neg'']) [filename]) = Inr c"
    show "length pos_files + length before <
       length (fst (generate_examples isspace encode_example fs directory)) \<and>
     fst (generate_examples isspace encode_example fs directory) ! (length pos_files + length before) =
       encode_example [''text'' \<mapsto> strip isspace c, ''label'' \<mapsto> ''neg'']"
      by (rule generate_examples_neg_file
            [OF a [THEN conjunct1] a [THEN conjunct2, THEN conjunct1]
                a [THEN conjunct2, THEN conjunct2, THEN conjunct1]
                a [THEN conjunct2, THEN conjunct2, THEN conjunct2, THEN conjunct1]
                a [THEN conjunct2, THEN conjunct2, THEN conjunct2, THEN conjunct2]])
  qed
  have decompose: "\<exists>lead trail. s = lead @ strip isspace s @ trail \<and>
      (\<forall>c\<in>set lead. isspace c) \<and> (\<forall>c\<in>set trail. isspace c)"
    by (rule strip_decompose)
  have ends: "strip isspace s \<noteq> [] \<longrightarrow>
      \<not> isspace (hd (strip isspace s)) \<and> \<not> isspace (last (strip isspace s))"
    using strip_ends [of isspace s] by blast
  have idem: "strip isspace (strip isspace s) = strip isspace s"
    by (rule strip_idem)
  from provenance pos_file neg_file decompose ends idem show ?thesis
    by (intro conjI)
qed

theorem generate_examples_text_is_stripped_content_witness:
  "(\<exists>d label names filename content.
      (d = ''train/pos'' \<and> label = ''pos'' \<or> d = ''train/neg'' \<and> label = ''neg'') \<and>
      ListDirectory (three_reviews ''train'') d = Inr names \<and> filename \<in> set names \<and>
      Open_read (three_reviews ''train'') (os_path_join d [filename]) = Inr content \<and>
      hd (fst (generate_examples ascii_isspace (\<lambda>ex. ex) (three_reviews ''train'') ''train'')) =
        [''text'' \<mapsto> strip ascii_isspace content, ''label'' \<mapsto> label]) \<and>
   Open_read (three_reviews ''train'') ''train/pos/1_7.txt'' = Inr ''  Loved it. '' \<and>
   fst (generate_examples ascii_isspace (\<lambda>ex. ex) (three_reviews ''train'') ''train'') ! 1 =
     [''text'' \<mapsto> ''Loved it.'', ''label'' \<mapsto> ''pos''] \<and>
   Open_read (three_reviews ''train'') ''train/neg/2_1.txt'' =
     Inr ([CHR 0x09] @ ''Dull.'' @ [CHR 0x0D, CHR 0x0A]) \<and>
   fst (generate_examples ascii_isspace (\<lambda>ex. ex) (three_reviews ''train'') ''train'') ! 2 =
     [''text'' \<mapsto> ''Dull.'', ''label'' \<mapsto> ''neg''] \<and>
   \<not> ascii_isspace (hd (strip ascii_isspace (''Great movie!'' @ [CHR 0x0A]))) \<and>
   \<not> ascii_isspace (last (strip ascii_isspace (''Great movie!'' @ [CHR 0x0A]))) \<and>
   strip ascii_isspace (strip ascii_isspace (''Great movie!'' @ [CHR 0x0A])) = ''Great movie!''"
proof -
  let ?run = "fst (generate_examples ascii_isspace (\<lambda>ex. ex) (three_reviews ''train'') ''train'')"
  note inst = generate_examples_text_is_stripped_content
    [of ascii_isspace "\<lambda>ex. ex" "three_reviews ''train''" "''train''" _ _ _ _ _ _ _
        "''Great movie!'' @ [CHR 0x0A]"]
  have s: "strip ascii_isspace (''Great movie!'' @ [CHR 0x0A]) = ''Great movie!''"
    by (simp add: strip_def ascii_isspace_def)
  from inst [THEN conjunct1] obtain raw where raw:
    "?run = map (\<lambda>ex. ex) raw"
    "\<forall>ex\<in>set raw. \<exists>d label names filename content.
         (d = os_path_join ''train'' [''pos''] \<and> label = ''pos'' \<or>
          d = os_path_join ''train'' [''neg''] \<and> label = ''neg'') \<and>
         ListDirectory (three_reviews ''train'') d = Inr names \<and> filename \<in> set names \<and>
         Open_read (three_reviews ''train'') (os_path_join d [filename]) = Inr content \<and>
         ex = [''text'' \<mapsto> strip ascii_isspace content, ''label'' \<mapsto> label]"
    by blast
  have "raw \<noteq> []" using raw(1) by (auto simp: three_reviews_run)
  then have "hd raw \<in> set raw" by simp
  moreover have "hd ?run = hd raw" using raw(1) by simp
  ultimately have first: "\<exists>d label names filename content.
      (d = ''train/pos'' \<and> label = ''pos'' \<or> d = ''train/neg'' \<and> label = ''neg'') \<and>
      ListDirectory (three_reviews ''train'') d = Inr names \<and> filename \<in> set names \<and>
      Open_read (three_reviews ''train'') (os_path_join d [filename]) = Inr content \<and>
      hd ?run = [''text'' \<mapsto> strip ascii_isspace content, ''label'' \<mapsto> label]"
    using raw(2) by (simp add: path_simps)
  have second: "?run ! 1 = [''text'' \<mapsto> ''Loved it.'', ''label'' \<mapsto> ''pos'']"
    using generate_examples_text_is_stripped_content
      [of ascii_isspace "\<lambda>ex. ex" "three_reviews ''train''" "''train''"
          "[''0_9.txt'']" "''1_7.txt''" "[]" "\<lambda>f. ''Great movie!'' @ [CHR 0x0A]" "''  Loved it. ''",
       THEN conjunct2, THEN conjunct1]
    by (simp add: path_simps three_reviews_train strip_def ascii_isspace_def)
  have third: "?run ! 2 = [''text'' \<mapsto> ''Dull.'', ''label'' \<mapsto> ''neg'']"
    using generate_examples_text_is_stripped_content
      [of ascii_isspace "\<lambda>ex. ex" "three_reviews ''train''" "''train''"
          "[]" "''2_1.txt''" "[]" "\<lambda>f. []" "[CHR 0x09] @ ''Dull.'' @ [CHR 0x0D, CHR 0x0A]"
          "[''0_9.txt'', ''1_7.txt'']"
          "\<lambda>f. if f = ''0_9.txt'' then ''Great movie!'' @ [CHR 0x0A] else ''  Loved it. ''",
       THEN conjunct2, THEN conjunct2, THEN conjunct1]
    by (simp add: path_simps three_reviews_train strip_def ascii_isspace_def numeral_2_eq_2)
  from inst [THEN conjunct2, THEN conjunct2, THEN conjunct2, THEN conjunct2] s
  have strips: "\<not> ascii_isspace (hd (strip ascii_isspace (''Great movie!'' @ [CHR 0x0A]))) \<and>
    \<not> ascii_isspace (last (strip ascii_isspace (''Great movie!'' @ [CHR 0x0A]))) \<and>
    strip ascii_isspace (strip ascii_isspace (''Great movie!'' @ [CHR 0x0A])) = ''Great movie!''"
    by simp
  from first second third strips show ?thesis
    by (simp add: three_reviews_train)
qed

text \<open>
  C6. The label of an example comes from the subdirectory that lists its file and from
  nothing else. Every example yielded was built with label \<open>pos\<close> or label \<open>neg\<close>.
  A file listed under \<open>pos\<close> that the generator reaches (the files listed before it
  were read) and reads gives, at its position in the run, an example with label
  \<open>pos\<close>, whatever its content \<open>c\<close> is; a file listed under \<open>neg\<close> gives one
  with label \<open>neg\<close>, at its position after the \<open>pos\<close> files.
\<close>

theorem generate_examples_label_from_subdirectory:
  "(\<exists>raw. fst (generate_examples isspace encode_example fs directory) = map encode_example raw \<and>
      (\<forall>ex\<in>set raw. ex ''label'' = Some ''pos'' \<or> ex ''label'' = Some ''neg''))
   \<and>
   (ListDirectory fs (os_path_join directory [''pos'']) = Inr (before @ filename # after) \<and>
    (\<forall>f\<in>set before.
       Open_read fs (os_path_join (os_path_join directory [''pos'']) [f]) = Inr (content f)) \<and>
    Open_read fs (os_path_join (os_path_join directory [''pos'']) [filename]) = Inr c
    \<longrightarrow>
    length before < length (fst (generate_examples isspace encode_example fs directory)) \<and>
    fst (generate_examples isspace encode_example fs directory) ! length before =
      encode_example [''text'' \<mapsto> strip isspace c, ''label'' \<mapsto> ''pos''])
   \<and>
   (ListDirectory fs (os_path_join directory [''pos'']) = Inr pos_files \<and>
    (\<forall>f\<in>set pos_files.
       Open_read fs (os_path_join (os_path_join directory [''pos'']) [f]) = Inr (pos_content f)) \<and>
    ListDirectory fs (os_path_join directory [''neg'']) = Inr (before @ filename # after) \<and>
    (\<forall>f\<in>set before.
       Open_read fs (os_path_join (os_path_join directory [''neg'']) [f]) = Inr (content f)) \<and>
    Open_read fs (os_path_join (os_path_join directory [''neg'']) [filename]) = Inr c
    \<longrightarrow>
    length pos_files + length before <
      length (fst (generate_examples isspace encode_example fs directory)) \<and>
    fst (generate_examples isspace encode_example fs directory) ! (length pos_files + length before) =
      encode_example [''text'' \<mapsto> strip isspace c, ''label'' \<mapsto> ''neg''])"
proof (intro conjI impI)
  obtain raw where raw:
    "fst (generate_examples isspace encode_example fs directory) = map encode_example raw"
    "\<forall>ex\<in>set raw. \<exists>d label names filename content.
        (d = os_path_join directory [''pos''] \<and> label = ''pos'' \<or>
         d = os_path_join directory [''neg''] \<and> label = ''neg'') \<and>
        ListDirectory fs d = Inr names \<and> filename \<in> set names \<and>
        Open_read fs (os_path_join d [filename]) = Inr content \<and>
        ex = [''text'' \<mapsto> strip isspace content, ''label'' \<mapsto> label]"
    using generate_examples_provenance [of isspace encode_example fs directory] by blast
  have "\<forall>ex\<in>set raw. ex ''label'' = Some ''pos'' \<or> ex ''label'' = Some ''neg''"
  proof
    fix ex assume "ex \<in> set raw"
    with raw(2) obtain label content where
      "label = ''pos'' \<or> label = ''neg''"
      "ex = [''text'' \<mapsto> strip isspace content, ''label'' \<mapsto> label]"
      by blast
    then show "ex ''label'' = Some ''pos'' \<or> ex ''label'' = Some ''neg''" by auto
  qed
  with raw(1) show "\<exists>raw.
      fst (generate_examples isspace encode_example fs directory) = map encode_example raw \<and>
      (\<forall>ex\<in>set raw. ex ''label'' = Some ''pos'' \<or> ex ''label'' = Some ''neg'')"
    by blast
next
  assume a: "ListDirectory fs (os_path_join directory [''pos'']) = Inr (before @ filename # after) \<and>
    (\<forall>f\<in>set before.
       Open_read fs (os_path_join (os_path_join directory [''pos'']) [f]) = Inr (content f)) \<and>
    Open_read fs (os_path_join (os_path_join directory [''pos'']) [filename]) = Inr c"
  then have l: "ListDirectory fs (os_path_join directory [''pos'']) = Inr (before @ filename # after)"
    and r: "\<forall>f\<in>set before.
       Open_read fs (os_path_join (os_path_join directory [''pos'']) [f]) = Inr (content f)"
    and b: "Open_read fs (os_path_join (os_path_join directory [''pos'']) [filename]) = Inr c"
    by simp_all
  obtain more where "fst (generate_examples isspace encode_example fs directory) =
      fst (examples_of_files isspace encode_example fs (os_path_join directory [''pos'']) ''pos''
             (before @ filename # after)) @ more"
    using generate_examples_pos_first [OF l] by blast
  then have run: "fst (generate_examples isspace encode_example fs directory) =
      map (\<lambda>f. encode_example [''text'' \<mapsto> strip isspace (content f), ''label'' \<mapsto> ''pos'']) before @
      encode_example [''text'' \<mapsto> strip isspace c, ''label'' \<mapsto> ''pos''] #
      fst (examples_of_files isspace encode_example fs (os_path_join directory [''pos'']) ''pos'' after)
      @ more"
    by (simp add: examples_of_files_reached [OF r b])
  show "length before < length (fst (generate_examples isspace encode_example fs directory))"
    by (simp add: run)
  show "fst (generate_examples isspace encode_example fs directory) ! length before =
      encode_example [''text'' \<mapsto> strip isspace c, ''label'' \<mapsto> ''pos'']"
    by (simp add: run nth_append)
next
  assume a: "ListDirectory fs (os_path_join directory [''pos'']) = Inr pos_files \<and>
    (\<forall>f\<in>set pos_files.
       Open_read fs (os_path_join (os_path_join directory [''pos'']) [f]) = Inr (pos_content f)) \<and>
    ListDirectory fs (os_path_join directory [''neg'']) = Inr (before @ filename # after) \<and>
    (\<forall>f\<in>set before.
       Open_read fs (os_path_join (os_path_join directory [''neg'']) [f]) = Inr (content f)) \<and>
    Open_read fs (os_path_join (os_path_join directory [''neg'']) [filename]) = Inr c"
  then have p: "\<forall>f\<in>set pos_files.
       Open_read fs (os_path_join (os_path_join directory [''pos'']) [f]) = Inr (pos_content f)"
    and r: "\<forall>f\<in>set before.
       Open_read fs (os_path_join (os_path_join directory [''neg'']) [f]) = Inr (content f)"
    and b: "Open_read fs (os_path_join (os_path_join directory [''neg'']) [filename]) = Inr c"
    by simp_all
  have run: "fst (generate_examples isspace encode_example fs directory) =
      map (\<lambda>f. encode_example [''text'' \<mapsto> strip isspace (pos_content f), ''label'' \<mapsto> ''pos''])
        pos_files @
      map (\<lambda>f. encode_example [''text'' \<mapsto> strip isspace (content f), ''label'' \<mapsto> ''neg'']) before @
      encode_example [''text'' \<mapsto> strip isspace c, ''label'' \<mapsto> ''neg''] #
      fst (examples_of_files isspace encode_example fs (os_path_join directory [''neg'']) ''neg'' after)"
    using a by (simp add: generate_examples_unfold examples_of_files_readable [OF p]
        examples_of_files_reached [OF r b])
  show "length pos_files + length before <
      length (fst (generate_examples isspace encode_example fs directory))"
    by (simp add: run)
  show "fst (generate_examples isspace encode_example fs directory) ! (length pos_files + length before) =
      encode_example [''text'' \<mapsto> strip isspace c, ''label'' \<mapsto> ''neg'']"
    by (simp add: run nth_append)
qed

theorem generate_examples_label_from_subdirectory_witness:
  "(hd (fst (generate_examples ascii_isspace (\<lambda>ex. ex) (three_reviews ''train'') ''train''))
      ''label'' = Some ''pos'' \<or>
    hd (fst (generate_examples ascii_isspace (\<lambda>ex. ex) (three_reviews ''train'') ''train''))
      ''label'' = Some ''neg'') \<and>
   fst (generate_examples ascii_isspace (\<lambda>ex. ex) (three_reviews ''train'') ''train'') ! 1 =
     [''text'' \<mapsto> ''Loved it.'', ''label'' \<mapsto> ''pos''] \<and>
   fst (generate_examples ascii_isspace (\<lambda>ex. ex) (three_reviews ''train'') ''train'') ! 2 =
     [''text'' \<mapsto> ''Dull.'', ''label'' \<mapsto> ''neg'']"
proof (intro conjI)
  let ?run = "fst (generate_examples ascii_isspace (\<lambda>ex. ex) (three_reviews ''train'') ''train'')"
  from generate_examples_label_from_subdirectory
    [of ascii_isspace "\<lambda>ex. ex" "three_reviews ''train''" "''train''"]
  obtain raw where raw: "?run = map (\<lambda>ex. ex) raw"
    "\<forall>ex\<in>set raw. ex ''label'' = Some ''pos'' \<or> ex ''label'' = Some ''neg''"
    by blast
  have "?run \<noteq> []" by (simp add: three_reviews_run)
  then have "hd ?run \<in> set raw" using raw(1) by simp
  with raw(2) show "hd ?run ''label'' = Some ''pos'' \<or> hd ?run ''label'' = Some ''neg''"
    by blast
  show "?run ! 1 = [''text'' \<mapsto> ''Loved it.'', ''label'' \<mapsto> ''pos'']"
    using generate_examples_label_from_subdirectory
      [of ascii_isspace "\<lambda>ex. ex" "three_reviews ''train''" "''train''"
          "[''0_9.txt'']" "''1_7.txt''" "[]" "\<lambda>f. ''Great movie!'' @ [CHR 0x0A]" "''  Loved it. ''"]
    by (simp add: path_simps three_reviews_train strip_def ascii_isspace_def)
  show "?run ! 2 = [''text'' \<mapsto> ''Dull.'', ''label'' \<mapsto> ''neg'']"
    using generate_examples_label_from_subdirectory
      [of ascii_isspace "\<lambda>ex. ex" "three_reviews ''train''" "''train''"
          "[]" "''2_1.txt''" "[]" "\<lambda>f. []" "[CHR 0x09] @ ''Dull.'' @ [CHR 0x0D, CHR 0x0A]"
          "[''0_9.txt'', ''1_7.txt'']"
          "\<lambda>f. if f = ''0_9.txt'' then ''Great movie!'' @ [CHR 0x0A] else ''  Loved it. ''"]
    by (simp add: path_simps three_reviews_train strip_def ascii_isspace_def numeral_2_eq_2)
qed

text \<open>
  C7. The scenario of the specification: \<open>train/pos\<close> lists one file whose content is
  \<open>Great movie!\<close> followed by a line feed, \<open>train/neg\<close> lists nothing. The generator
  over \<open>train\<close> yields exactly one example, the encoding of text \<open>Great movie!\<close> with
  label \<open>pos\<close>, and ends normally. This holds for every whitespace predicate that
  takes the line feed for whitespace and the letter and the exclamation mark for none.
\<close>

theorem generate_examples_great_movie:
  assumes "ListDirectory fs ''train/pos'' = Inr [filename]"
    and "Open_read fs (os_path_join ''train/pos'' [filename]) = Inr (''Great movie!'' @ [CHR 0x0A])"
    and "ListDirectory fs ''train/neg'' = Inr []"
    and "isspace (CHR 0x0A)" and "\<not> isspace CHR ''G''" and "\<not> isspace CHR ''!''"
  shows "generate_examples isspace encode_example fs ''train'' =
           ([encode_example [''text'' \<mapsto> ''Great movie!'', ''label'' \<mapsto> ''pos'']], None)"
proof -
  have "strip isspace (''Great movie!'' @ [CHR 0x0A]) = ''Great movie!''"
    using assms(4-6) by (simp add: strip_def)
  then show ?thesis
    using assms(1-3) by (simp add: generate_examples_unfold path_simps Let_def)
qed

theorem generate_examples_great_movie_witness:
  "generate_examples ascii_isspace (\<lambda>ex. ex) one_review ''train'' =
     ([[''text'' \<mapsto> ''Great movie!'', ''label'' \<mapsto> ''pos'']], None)"
  using generate_examples_great_movie [of one_review "''0_9.txt''" ascii_isspace "\<lambda>ex. ex"]
  by (simp add: one_review_def fs_of_def path_simps ascii_isspace_def)

text \<open>
  C8. A file that cannot be opened or read ends the generator with the error of that
  file: the examples of the files before it have been yielded, none is yielded for the
  failing file or any file after it (a failure under \<open>pos\<close> also leaves all of \<open>neg\<close>
  out), and the failing file is neither skipped nor tried again. The first conjunct is
  a failure under \<open>pos\<close>, the second one under \<open>neg\<close>; by the third, whenever any
  listed file cannot be read the run ends with the error of a read and with fewer
  examples than files.
\<close>

theorem generate_examples_aborts_at_unreadable_file:
  "(ListDirectory fs (os_path_join directory [''pos'']) = Inr (before @ bad # after) \<and>
    (\<forall>f\<in>set before.
       Open_read fs (os_path_join (os_path_join directory [''pos'']) [f]) = Inr (content f)) \<and>
    Open_read fs (os_path_join (os_path_join directory [''pos'']) [bad]) = Inl e
    \<longrightarrow>
    generate_examples isspace encode_example fs directory =
      (map (\<lambda>f. encode_example [''text'' \<mapsto> strip isspace (content f), ''label'' \<mapsto> ''pos''])
         before, Some e))
   \<and>
   (ListDirectory fs (os_path_join directory [''pos'']) = Inr pos_files \<and>
    (\<forall>f\<in>set pos_files.
       Open_read fs (os_path_join (os_path_join directory [''pos'']) [f]) = Inr (pos_content f)) \<and>
    ListDirectory fs (os_path_join directory [''neg'']) = Inr (before @ bad # after) \<and>
    (\<forall>f\<in>set before.
       Open_read fs (os_path_join (os_path_join directory [''neg'']) [f]) = Inr (content f)) \<and>
    Open_read fs (os_path_join (os_path_join directory [''neg'']) [bad]) = Inl e
    \<longrightarrow>
    generate_examples isspace encode_example fs directory =
      (map (\<lambda>f. encode_example [''text'' \<mapsto> strip isspace (pos_content f), ''label'' \<mapsto> ''pos''])
         pos_files @
       map (\<lambda>f. encode_example [''text'' \<mapsto> strip isspace (content f), ''label'' \<mapsto> ''neg''])
         before, Some e)) \<and>
   (ListDirectory fs (os_path_join directory [''pos'']) = Inr pos_files \<and>
    ListDirectory fs (os_path_join directory [''neg'']) = Inr neg_files \<and>
    ((\<exists>f\<in>set pos_files. \<exists>e'.
        Open_read fs (os_path_join (os_path_join directory [''pos'']) [f]) = Inl e') \<or>
     (\<exists>f\<in>set neg_files. \<exists>e'.
        Open_read fs (os_path_join (os_path_join directory [''neg'']) [f]) = Inl e'))
    \<longrightarrow>
    (\<exists>d f e'. Open_read fs (os_path_join d [f]) = Inl e' \<and>
       snd (generate_examples isspace encode_example fs directory) = Some e') \<and>
    length (fst (generate_examples isspace encode_example fs directory)) <
      length pos_files + length neg_files)"
proof (intro conjI impI)
  assume a: "ListDirectory fs (os_path_join directory [''pos'']) = Inr (before @ bad # after) \<and>
    (\<forall>f\<in>set before.
       Open_read fs (os_path_join (os_path_join directory [''pos'']) [f]) = Inr (content f)) \<and>
    Open_read fs (os_path_join (os_path_join directory [''pos'']) [bad]) = Inl e"
  then have r: "\<forall>f\<in>set before.
       Open_read fs (os_path_join (os_path_join directory [''pos'']) [f]) = Inr (content f)"
    and b: "Open_read fs (os_path_join (os_path_join directory [''pos'']) [bad]) = Inl e"
    by simp_all
  show "generate_examples isspace encode_example fs directory =
      (map (\<lambda>f. encode_example [''text'' \<mapsto> strip isspace (content f), ''label'' \<mapsto> ''pos''])
         before, Some e)"
    using a by (simp add: generate_examples_unfold examples_of_files_unreadable [OF r b])
next
  assume a: "ListDirectory fs (os_path_join directory [''pos'']) = Inr pos_files \<and>
    (\<forall>f\<in>set pos_files.
       Open_read fs (os_path_join (os_path_join directory [''pos'']) [f]) = Inr (pos_content f)) \<and>
    ListDirectory fs (os_path_join directory [''neg'']) = Inr (before @ bad # after) \<and>
    (\<forall>f\<in>set before.
       Open_read fs (os_path_join (os_path_join directory [''neg'']) [f]) = Inr (content f)) \<and>
    Open_read fs (os_path_join (os_path_join directory [''neg'']) [bad]) = Inl e"
  then have p: "\<forall>f\<in>set pos_files.
       Open_read fs (os_path_join (os_path_join directory [''pos'']) [f]) = Inr (pos_content f)"
    and r: "\<forall>f\<in>set before.
       Open_read fs (os_path_join (os_path_join directory [''neg'']) [f]) = Inr (content f)"
    and b: "Open_read fs (os_path_join (os_path_join directory [''neg'']) [bad]) = Inl e"
    by simp_all
  show "generate_examples isspace encode_example fs directory =
      (map (\<lambda>f. encode_example [''text'' \<mapsto> strip isspace (pos_content f), ''label'' \<mapsto> ''pos''])
         pos_files @
       map (\<lambda>f. encode_example [''text'' \<mapsto> strip isspace (content f), ''label'' \<mapsto> ''neg''])
         before, Some e)"
    using a by (simp add: generate_examples_unfold examples_of_files_readable [OF p]
        examples_of_files_unreadable [OF r b])
next
  let ?pos = "os_path_join directory [''pos'']" and ?neg = "os_path_join directory [''neg'']"
  assume a: "ListDirectory fs ?pos = Inr pos_files \<and>
    ListDirectory fs ?neg = Inr neg_files \<and>
    ((\<exists>f\<in>set pos_files. \<exists>e'. Open_read fs (os_path_join ?pos [f]) = Inl e') \<or>
     (\<exists>f\<in>set neg_files. \<exists>e'. Open_read fs (os_path_join ?neg [f]) = Inl e'))"
  then have pos: "ListDirectory fs ?pos = Inr pos_files"
    and neg: "ListDirectory fs ?neg = Inr neg_files"
    by simp_all
  have "(\<exists>d f e'. Open_read fs (os_path_join d [f]) = Inl e' \<and>
       snd (generate_examples isspace encode_example fs directory) = Some e') \<and>
    length (fst (generate_examples isspace encode_example fs directory)) <
      length pos_files + length neg_files"
  proof (cases "\<exists>f\<in>set pos_files. \<exists>e'. Open_read fs (os_path_join ?pos [f]) = Inl e'")
    case True
    from examples_of_files_some_unreadable [OF True, of isspace encode_example "''pos''"]
    obtain before bad after e' where
      "pos_files = before @ bad # after" "Open_read fs (os_path_join ?pos [bad]) = Inl e'"
      "examples_of_files isspace encode_example fs ?pos ''pos'' pos_files =
         (map (\<lambda>f. encode_example
                 [''text'' \<mapsto> strip isspace (projr (Open_read fs (os_path_join ?pos [f]))),
                  ''label'' \<mapsto> ''pos'']) before, Some e')"
      by blast
    then show ?thesis
      by (auto simp: generate_examples_unfold pos)
  next
    case False
    then have readable: "\<forall>f\<in>set pos_files. Open_read fs (os_path_join ?pos [f]) =
        Inr (projr (Open_read fs (os_path_join ?pos [f])))"
      by (metis sum.collapse(2) sum.disc(1) sum.exhaust_sel)
    from False a have "\<exists>f\<in>set neg_files. \<exists>e'. Open_read fs (os_path_join ?neg [f]) = Inl e'"
      by blast
    from examples_of_files_some_unreadable [OF this, of isspace encode_example "''neg''"]
    obtain before bad after e' where
      "neg_files = before @ bad # after" "Open_read fs (os_path_join ?neg [bad]) = Inl e'"
      "examples_of_files isspace encode_example fs ?neg ''neg'' neg_files =
         (map (\<lambda>f. encode_example
                 [''text'' \<mapsto> strip isspace (projr (Open_read fs (os_path_join ?neg [f]))),
                  ''label'' \<mapsto> ''neg'']) before, Some e')"
      by blast
    then show ?thesis
      by (auto simp: generate_examples_unfold pos neg examples_of_files_readable [OF readable])
  qed
  then show "\<exists>d f e'. Open_read fs (os_path_join d [f]) = Inl e' \<and>
       snd (generate_examples isspace encode_example fs directory) = Some e'"
    and "length (fst (generate_examples isspace encode_example fs directory)) <
      length pos_files + length neg_files"
    by simp_all
qed

theorem generate_examples_aborts_at_unreadable_file_witness:
  "generate_examples ascii_isspace (\<lambda>ex. ex) unreadable_pos ''train'' =
     ([[''text'' \<mapsto> ''Great movie!'', ''label'' \<mapsto> ''pos'']],
      Some (NotFoundError ''train/pos/1_7.txt'')) \<and>
   generate_examples ascii_isspace (\<lambda>ex. ex) unreadable_neg ''train'' =
     ([[''text'' \<mapsto> ''Great movie!'', ''label'' \<mapsto> ''pos'']],
      Some (NotFoundError ''train/neg/2_1.txt'')) \<and>
   snd (generate_examples ascii_isspace (\<lambda>ex. ex) unreadable_pos ''train'') \<noteq> None \<and>
   length (fst (generate_examples ascii_isspace (\<lambda>ex. ex) unreadable_pos ''train'')) < 3 + 1"
proof (intro conjI)
  show "generate_examples ascii_isspace (\<lambda>ex. ex) unreadable_pos ''train'' =
     ([[''text'' \<mapsto> ''Great movie!'', ''label'' \<mapsto> ''pos'']],
      Some (NotFoundError ''train/pos/1_7.txt''))"
    using generate_examples_aborts_at_unreadable_file
      [of unreadable_pos "''train''" "[''0_9.txt'']" "''1_7.txt''" "[''3_8.txt'']"
          "\<lambda>f. ''Great movie!'' @ [CHR 0x0A]" "NotFoundError ''train/pos/1_7.txt''"
          ascii_isspace "\<lambda>ex. ex"]
    by (simp add: unreadable_pos_def fs_of_def path_simps strip_def ascii_isspace_def)
  show "generate_examples ascii_isspace (\<lambda>ex. ex) unreadable_neg ''train'' =
     ([[''text'' \<mapsto> ''Great movie!'', ''label'' \<mapsto> ''pos'']],
      Some (NotFoundError ''train/neg/2_1.txt''))"
    using generate_examples_aborts_at_unreadable_file
      [of unreadable_neg "''train''" "[]" "''2_1.txt''" "[''4_3.txt'']"
          "\<lambda>f. []" "NotFoundError ''train/neg/2_1.txt''"
          ascii_isspace "\<lambda>ex. ex" "[''0_9.txt'']" "\<lambda>f. ''Great movie!'' @ [CHR 0x0A]"]
    by (simp add: unreadable_neg_def fs_of_def path_simps strip_def ascii_isspace_def)
  have "(\<exists>d f e'. Open_read unreadable_pos (os_path_join d [f]) = Inl e' \<and>
           snd (generate_examples ascii_isspace (\<lambda>ex. ex) unreadable_pos ''train'') = Some e') \<and>
        length (fst (generate_examples ascii_isspace (\<lambda>ex. ex) unreadable_pos ''train'')) < 3 + 1"
    using generate_examples_aborts_at_unreadable_file
      [of unreadable_pos "''train''" _ _ _ _ _ ascii_isspace "\<lambda>ex. ex"
          "[''0_9.txt'', ''1_7.txt'', ''3_8.txt'']" _ "[''2_1.txt'']",
       THEN conjunct2, THEN conjunct2]
    by (simp add: unreadable_pos_def fs_of_def path_simps)
  then show "snd (generate_examples ascii_isspace (\<lambda>ex. ex) unreadable_pos ''train'') \<noteq> None"
    and "length (fst (generate_examples ascii_isspace (\<lambda>ex. ex) unreadable_pos ''train'')) < 3 + 1"
    by auto
qed

text \<open>
  C9. The generator is a function of what it reads: on two file systems (or on one file
  system at two moments) that give the same listing for the two subdirectories and the
  same result for opening and reading each listed file, it produces the same sequence of
  examples and ends the same way.
\<close>

theorem generate_examples_deterministic:
  assumes "ListDirectory fs1 (os_path_join directory [''pos'']) =
           ListDirectory fs2 (os_path_join directory [''pos''])"
    and "ListDirectory fs1 (os_path_join directory [''neg'']) =
         ListDirectory fs2 (os_path_join directory [''neg''])"
    and "\<forall>names. ListDirectory fs1 (os_path_join directory [''pos'']) = Inr names \<longrightarrow>
           (\<forall>f\<in>set names.
              Open_read fs1 (os_path_join (os_path_join directory [''pos'']) [f]) =
              Open_read fs2 (os_path_join (os_path_join directory [''pos'']) [f]))"
    and "\<forall>names. ListDirectory fs1 (os_path_join directory [''neg'']) = Inr names \<longrightarrow>
           (\<forall>f\<in>set names.
              Open_read fs1 (os_path_join (os_path_join directory [''neg'']) [f]) =
              Open_read fs2 (os_path_join (os_path_join directory [''neg'']) [f]))"
  shows "generate_examples isspace encode_example fs1 directory =
         generate_examples isspace encode_example fs2 directory"
proof -
  have pos: "examples_of_files isspace encode_example fs1 (os_path_join directory [''pos'']) l names =
        examples_of_files isspace encode_example fs2 (os_path_join directory [''pos'']) l names"
    if "ListDirectory fs1 (os_path_join directory [''pos'']) = Inr names" for names l
    using assms(3) that by (intro examples_of_files_cong) blast
  have neg: "examples_of_files isspace encode_example fs1 (os_path_join directory [''neg'']) l names =
        examples_of_files isspace encode_example fs2 (os_path_join directory [''neg'']) l names"
    if "ListDirectory fs1 (os_path_join directory [''neg'']) = Inr names" for names l
    using assms(4) that by (intro examples_of_files_cong) blast
  show ?thesis
    unfolding generate_examples_unfold assms(1) [symmetric] assms(2) [symmetric]
    by (auto simp: pos neg split: sum.splits prod.splits option.splits)
qed

theorem generate_examples_deterministic_witness:
  "generate_examples ascii_isspace (\<lambda>ex. ex) (three_reviews ''train'') ''train'' =
   generate_examples ascii_isspace (\<lambda>ex. ex) (three_reviews_and_more ''train'') ''train'' \<and>
   three_reviews ''train'' \<noteq> three_reviews_and_more ''train''"
proof
  show "generate_examples ascii_isspace (\<lambda>ex. ex) (three_reviews ''train'') ''train'' =
   generate_examples ascii_isspace (\<lambda>ex. ex) (three_reviews_and_more ''train'') ''train''"
    using generate_examples_deterministic
      [of "three_reviews ''train''" "''train''" "three_reviews_and_more ''train''"
          ascii_isspace "\<lambda>ex. ex"]
    by (simp add: three_reviews_def three_reviews_and_more_def fs_of_def path_simps)
  have "ListDirectory (three_reviews ''train'') ''train/unsup'' \<noteq>
        ListDirectory (three_reviews_and_more ''train'') ''train/unsup''"
    by (simp add: three_reviews_def three_reviews_and_more_def fs_of_def)
  then show "three_reviews ''train'' \<noteq> three_reviews_and_more ''train''"
    by auto
qed

subsection \<open>The vocabulary feeder\<close>

lemma yield_text_all_present:
  assumes "\<forall>ex\<in>set exs. ex ''text'' \<noteq> None"
  shows "yield_text (exs, err) = (map (\<lambda>ex. the (ex ''text'')) exs, err)"
  using assms by (induction exs) auto

text \<open>
  C3. The vocabulary feeder yields the text field of each example the generator yields
  over the same directory, one for one and in the same order, and ends as the generator
  ends. Each encoded example is taken to have a text field, as the claim supposes; the
  lookup of a missing key would raise instead.
\<close>

theorem vocab_text_gen_is_text_of_examples:
  assumes "\<forall>ex\<in>set (fst (generate_examples isspace encode_example fs train_dir)).
             ex ''text'' \<noteq> None"
  shows "map Some (fst (vocab_text_gen isspace encode_example fs train_dir)) =
           map (\<lambda>ex. ex ''text'') (fst (generate_examples isspace encode_example fs train_dir)) \<and>
         snd (vocab_text_gen isspace encode_example fs train_dir) =
           snd (generate_examples isspace encode_example fs train_dir)"
proof -
  obtain exs err where run: "generate_examples isspace encode_example fs train_dir = (exs, err)"
    by (cases "generate_examples isspace encode_example fs train_dir")
  with assms have "\<forall>ex\<in>set exs. ex ''text'' \<noteq> None" by simp
  then have "yield_text (exs, err) = (map (\<lambda>ex. the (ex ''text'')) exs, err)"
    by (rule yield_text_all_present)
  moreover have "map Some (map (\<lambda>ex. the (ex ''text'')) exs) = map (\<lambda>ex. ex ''text'') exs"
    using \<open>\<forall>ex\<in>set exs. ex ''text'' \<noteq> None\<close> by auto
  ultimately show ?thesis by (simp add: vocab_text_gen_def run)
qed

theorem vocab_text_gen_is_text_of_examples_witness:
  "vocab_text_gen ascii_isspace (\<lambda>ex. ex) (three_reviews ''train'') ''train'' =
     ([''Great movie!'', ''Loved it.'', ''Dull.''], None)"
proof -
  have "map Some (fst (vocab_text_gen ascii_isspace (\<lambda>ex. ex) (three_reviews ''train'') ''train'')) =
          map Some [''Great movie!'', ''Loved it.'', ''Dull.''] \<and>
        snd (vocab_text_gen ascii_isspace (\<lambda>ex. ex) (three_reviews ''train'') ''train'') = None"
    using vocab_text_gen_is_text_of_examples
      [of ascii_isspace "\<lambda>ex. ex" "three_reviews ''train''" "''train''"]
    by (simp add: three_reviews_run)
  then have "fst (vocab_text_gen ascii_isspace (\<lambda>ex. ex) (three_reviews ''train'') ''train'') =
          [''Great movie!'', ''Loved it.'', ''Dull.''] \<and>
        snd (vocab_text_gen ascii_isspace (\<lambda>ex. ex) (three_reviews ''train'') ''train'') = None"
    by (simp only: inj_map_eq_map [OF inj_Some])
  then show ?thesis by (simp add: prod_eq_iff)
qed

subsection \<open>Split setup\<close>

lemma endswith_snoc: "endswith (xs @ [c]) ''/'' = (c = CHR ''/'')"
  by (simp add: endswith_def)

lemma os_path_join_aclImdb:
  assumes "imdb_path \<noteq> []" and "\<not> endswith imdb_path ''/''"
  shows "os_path_join imdb_path [''aclImdb'', ''train''] = imdb_path @ ''/aclImdb/train''"
    and "os_path_join imdb_path [''aclImdb'', ''test''] = imdb_path @ ''/aclImdb/test''"
proof -
  have "\<not> endswith (imdb_path @ ''/aclImdb'') ''/''"
    using endswith_snoc [of "imdb_path @ ''/aclImd''" "CHR ''b''"] by simp
  then show "os_path_join imdb_path [''aclImdb'', ''train''] = imdb_path @ ''/aclImdb/train''"
    and "os_path_join imdb_path [''aclImdb'', ''test''] = imdb_path @ ''/aclImdb/test''"
    using assms by (simp_all add: os_path_join.simps startswith_def)
qed

lemma split_generators_unfold:
  assumes "download_and_extract DOWNLOAD_URL = Inr imdb_path"
  shows "split_generators self_name builder_config download_and_extract
           isspace encode_example fs vocab_builds =
         (case maybe_build_from_corpus (Text (text_encoder_config builder_config))
                 (vocab_text_gen isspace encode_example fs
                    (os_path_join imdb_path [''aclImdb'', ''train''])) vocab_builds of
            (Some e, vocab_builds') \<Rightarrow> (Inl e, vocab_builds')
          | (None, vocab_builds') \<Rightarrow>
              (Inr [\<lparr>split_name = TRAIN, num_shards = 10,
                      gen_kwargs = [(''directory'', os_path_join imdb_path [''aclImdb'', ''train''])]\<rparr>,
                    \<lparr>split_name = TEST, num_shards = 10,
                      gen_kwargs = [(''directory'', os_path_join imdb_path [''aclImdb'', ''test''])]\<rparr>],
               vocab_builds'))"
  using assms by (simp add: split_generators_def info_def Let_def)

lemma three_reviews_data_feed:
  "vocab_text_gen ascii_isspace (\<lambda>ex. ex) (three_reviews ''/data/aclImdb/train'')
     ''/data/aclImdb/train'' = ([''Great movie!'', ''Loved it.'', ''Dull.''], None)"
  by (simp add: vocab_text_gen_def generate_examples_unfold three_reviews_def fs_of_def
      path_simps Let_def strip_def ascii_isspace_def)

lemma extract_to_data_root: "extract_to_data DOWNLOAD_URL = Inr ''/data''"
  by (simp add: extract_to_data_def)

lemma data_dirs:
  "os_path_join ''/data'' [''aclImdb'', ''train''] = ''/data/aclImdb/train''"
  "os_path_join ''/data'' [''aclImdb'', ''test''] = ''/data/aclImdb/test''"
  by (simp_all add: path_simps)

lemma builder_configs_text_encoders:
  "map (\<lambda>c. (name c, encoder_cls (text_encoder_config c) = Some SubwordTextEncoder))
     BUILDER_CONFIGS =
   [(''plain_text'', False), (''bytes'', False), (''subwords8k'', True), (''subwords32k'', True)]"
  by (simp add: BUILDER_CONFIGS_def IMDBReviewsConfig_init_def)

text \<open>
  C4, as amended. A run of split setup whose download and extraction give the root
  \<open>imdb_path\<close> returns, unless the vocabulary feed of a subword configuration ends
  with an error, exactly two split generators: the first named \<open>TRAIN\<close>, the second
  \<open>TEST\<close>, each with 10 shards, over the directories
  \<^verbatim>\<open>os.path.join(imdb_path, "aclImdb", "train")\<close> and
  \<^verbatim>\<open>os.path.join(imdb_path, "aclImdb", "test")\<close>; and a run that returns split
  generators returns these two. For a root that is not empty and does not end with the
  separator the directories are \<open>imdb_path/aclImdb/train\<close> and
  \<open>imdb_path/aclImdb/test\<close>.
\<close>

theorem split_generators_two_splits:
  assumes "download_and_extract DOWNLOAD_URL = Inr imdb_path"
  shows
    "((encoder_cls (text_encoder_config builder_config) = Some SubwordTextEncoder \<longrightarrow>
       snd (vocab_text_gen isspace encode_example fs
              (os_path_join imdb_path [''aclImdb'', ''train''])) = None) \<longrightarrow>
      fst (split_generators self_name builder_config download_and_extract
             isspace encode_example fs vocab_builds) =
        Inr [\<lparr>split_name = TRAIN, num_shards = 10,
               gen_kwargs = [(''directory'', os_path_join imdb_path [''aclImdb'', ''train''])]\<rparr>,
             \<lparr>split_name = TEST, num_shards = 10,
               gen_kwargs = [(''directory'', os_path_join imdb_path [''aclImdb'', ''test''])]\<rparr>]) \<and>
     (\<forall>descs. fst (split_generators self_name builder_config download_and_extract
                     isspace encode_example fs vocab_builds) = Inr descs \<longrightarrow>
        descs =
          [\<lparr>split_name = TRAIN, num_shards = 10,
             gen_kwargs = [(''directory'', os_path_join imdb_path [''aclImdb'', ''train''])]\<rparr>,
           \<lparr>split_name = TEST, num_shards = 10,
             gen_kwargs = [(''directory'', os_path_join imdb_path [''aclImdb'', ''test''])]\<rparr>]) \<and>
     (imdb_path \<noteq> [] \<and> \<not> endswith imdb_path ''/'' \<longrightarrow>
        os_path_join imdb_path [''aclImdb'', ''train''] = imdb_path @ ''/aclImdb/train'' \<and>
        os_path_join imdb_path [''aclImdb'', ''test''] = imdb_path @ ''/aclImdb/test'')"
proof (intro conjI impI allI)
  let ?feed = "vocab_text_gen isspace encode_example fs (os_path_join imdb_path [''aclImdb'', ''train''])"
  note run = split_generators_unfold
      [where download_and_extract = download_and_extract and imdb_path = imdb_path, OF assms,
       of self_name builder_config isspace encode_example fs vocab_builds]
  {
    assume ok: "encoder_cls (text_encoder_config builder_config) = Some SubwordTextEncoder \<longrightarrow>
       snd ?feed = None"
    show "fst (split_generators self_name builder_config download_and_extract
             isspace encode_example fs vocab_builds) =
        Inr [\<lparr>split_name = TRAIN, num_shards = 10,
               gen_kwargs = [(''directory'', os_path_join imdb_path [''aclImdb'', ''train''])]\<rparr>,
             \<lparr>split_name = TEST, num_shards = 10,
               gen_kwargs = [(''directory'', os_path_join imdb_path [''aclImdb'', ''test''])]\<rparr>]"
      using ok by (cases ?feed) (auto simp: run)
  }
  {
    fix descs
    assume "fst (split_generators self_name builder_config download_and_extract
                     isspace encode_example fs vocab_builds) = Inr descs"
    then show "descs =
          [\<lparr>split_name = TRAIN, num_shards = 10,
             gen_kwargs = [(''directory'', os_path_join imdb_path [''aclImdb'', ''train''])]\<rparr>,
           \<lparr>split_name = TEST, num_shards = 10,
             gen_kwargs = [(''directory'', os_path_join imdb_path [''aclImdb'', ''test''])]\<rparr>]"
      by (cases ?feed) (auto simp: run split: if_splits option.splits)
  }
  {
    assume "imdb_path \<noteq> [] \<and> \<not> endswith imdb_path ''/''"
    then show "os_path_join imdb_path [''aclImdb'', ''train''] = imdb_path @ ''/aclImdb/train''"
      and "os_path_join imdb_path [''aclImdb'', ''test''] = imdb_path @ ''/aclImdb/test''"
      by (simp_all add: os_path_join_aclImdb)
  }
qed

theorem split_generators_two_splits_witness:
  "fst (split_generators ''imdb_reviews'' (BUILDER_CONFIGS ! 3) extract_to_data ascii_isspace
          (\<lambda>ex. ex) (three_reviews ''/data/aclImdb/train'') []) =
     Inr [\<lparr>split_name = TRAIN, num_shards = 10,
            gen_kwargs = [(''directory'', ''/data/aclImdb/train'')]\<rparr>,
          \<lparr>split_name = TEST, num_shards = 10,
            gen_kwargs = [(''directory'', ''/data/aclImdb/test'')]\<rparr>] \<and>
   os_path_join ''/data'' [''aclImdb'', ''train''] = ''/data'' @ ''/aclImdb/train'' \<and>
   os_path_join ''/data'' [''aclImdb'', ''test''] = ''/data'' @ ''/aclImdb/test''"
proof -
  note inst = split_generators_two_splits
      [where download_and_extract = extract_to_data and imdb_path = "''/data''"
         and builder_config = "BUILDER_CONFIGS ! 3" and isspace = ascii_isspace
         and encode_example = "\<lambda>ex. ex" and fs = "three_reviews ''/data/aclImdb/train''"
         and self_name = "''imdb_reviews''" and vocab_builds = "[]",
       OF extract_to_data_root]
  have "fst (split_generators ''imdb_reviews'' (BUILDER_CONFIGS ! 3) extract_to_data ascii_isspace
          (\<lambda>ex. ex) (three_reviews ''/data/aclImdb/train'') []) =
     Inr [\<lparr>split_name = TRAIN, num_shards = 10,
            gen_kwargs = [(''directory'', ''/data/aclImdb/train'')]\<rparr>,
          \<lparr>split_name = TEST, num_shards = 10,
            gen_kwargs = [(''directory'', ''/data/aclImdb/test'')]\<rparr>]"
    using inst [THEN conjunct1] by (simp add: data_dirs three_reviews_data_feed)
  moreover have "os_path_join ''/data'' [''aclImdb'', ''train''] = ''/data'' @ ''/aclImdb/train'' \<and>
      os_path_join ''/data'' [''aclImdb'', ''test''] = ''/data'' @ ''/aclImdb/test''"
    using inst [THEN conjunct2, THEN conjunct2] by (simp add: endswith_def)
  ultimately show ?thesis by simp
qed

text \<open>
  C4, as stated, fails: with the archive extracted to \<open>/data\<close> the two directories are
  \<open>/data/aclImdb/train\<close> and \<open>/data/aclImdb/test\<close>, not \<open>/data/train\<close> and
  \<open>/data/test\<close>.
\<close>

theorem split_generators_root_train_counterexample:
  "fst (split_generators ''imdb_reviews'' (BUILDER_CONFIGS ! 0) extract_to_data ascii_isspace
          id (three_reviews ''/data/aclImdb/train'') []) =
     Inr [\<lparr>split_name = TRAIN, num_shards = 10,
            gen_kwargs = [(''directory'', ''/data/aclImdb/train'')]\<rparr>,
          \<lparr>split_name = TEST, num_shards = 10,
            gen_kwargs = [(''directory'', ''/data/aclImdb/test'')]\<rparr>] \<and>
   fst (split_generators ''imdb_reviews'' (BUILDER_CONFIGS ! 0) extract_to_data ascii_isspace
          id (three_reviews ''/data/aclImdb/train'') []) \<noteq>
     Inr [\<lparr>split_name = TRAIN, num_shards = 10,
            gen_kwargs = [(''directory'', ''/data/train'')]\<rparr>,
          \<lparr>split_name = TEST, num_shards = 10,
            gen_kwargs = [(''directory'', ''/data/test'')]\<rparr>]"
  by (simp add: split_generators_unfold
        [where download_and_extract = extract_to_data and imdb_path = "''/data''",
         OF extract_to_data_root]
      data_dirs BUILDER_CONFIGS_def IMDBReviewsConfig_init_def)

text \<open>
  C5. In a run of split setup whose download and extraction succeed, vocabulary building
  is invoked exactly once when the text encoder of the active configuration is the
  subword encoder (one entry is added to the invocations, with the vocabulary size of the
  configuration and the texts of the vocabulary feeder over the training directory), and
  not at all otherwise (the invocations are unchanged and the two split generators are
  returned). Of the four builder configurations, \<open>subwords8k\<close> and \<open>subwords32k\<close> use
  the subword encoder, \<open>plain_text\<close> and \<open>bytes\<close> do not.
\<close>

theorem split_generators_vocabulary_builds:
  assumes "download_and_extract DOWNLOAD_URL = Inr imdb_path"
  shows
    "(encoder_cls (text_encoder_config builder_config) = Some SubwordTextEncoder \<longrightarrow>
        snd (split_generators self_name builder_config download_and_extract
               isspace encode_example fs vocab_builds) =
          vocab_builds @
          [(vocab_size (text_encoder_config builder_config),
            fst (vocab_text_gen isspace encode_example fs
                   (os_path_join imdb_path [''aclImdb'', ''train''])))] \<and>
        length (snd (split_generators self_name builder_config download_and_extract
                       isspace encode_example fs vocab_builds)) = length vocab_builds + 1) \<and>
     (encoder_cls (text_encoder_config builder_config) \<noteq> Some SubwordTextEncoder \<longrightarrow>
        split_generators self_name builder_config download_and_extract
          isspace encode_example fs vocab_builds =
          (Inr [\<lparr>split_name = TRAIN, num_shards = 10,
                  gen_kwargs = [(''directory'', os_path_join imdb_path [''aclImdb'', ''train''])]\<rparr>,
                \<lparr>split_name = TEST, num_shards = 10,
                  gen_kwargs = [(''directory'', os_path_join imdb_path [''aclImdb'', ''test''])]\<rparr>],
           vocab_builds)) \<and>
     map (\<lambda>c. (name c, encoder_cls (text_encoder_config c) = Some SubwordTextEncoder))
       BUILDER_CONFIGS =
     [(''plain_text'', False), (''bytes'', False), (''subwords8k'', True), (''subwords32k'', True)]"
proof (intro conjI impI)
  let ?feed = "vocab_text_gen isspace encode_example fs (os_path_join imdb_path [''aclImdb'', ''train''])"
  note run = split_generators_unfold
      [where download_and_extract = download_and_extract and imdb_path = imdb_path, OF assms,
       of self_name builder_config isspace encode_example fs vocab_builds]
  {
    assume sub: "encoder_cls (text_encoder_config builder_config) = Some SubwordTextEncoder"
    then show built: "snd (split_generators self_name builder_config download_and_extract
               isspace encode_example fs vocab_builds) =
          vocab_builds @ [(vocab_size (text_encoder_config builder_config), fst ?feed)]"
      by (cases ?feed) (auto simp: run split: option.splits)
    show "length (snd (split_generators self_name builder_config download_and_extract
                       isspace encode_example fs vocab_builds)) = length vocab_builds + 1"
      by (simp add: built)
  }
  {
    assume "encoder_cls (text_encoder_config builder_config) \<noteq> Some SubwordTextEncoder"
    then show "split_generators self_name builder_config download_and_extract
          isspace encode_example fs vocab_builds =
          (Inr [\<lparr>split_name = TRAIN, num_shards = 10,
                  gen_kwargs = [(''directory'', os_path_join imdb_path [''aclImdb'', ''train''])]\<rparr>,
                \<lparr>split_name = TEST, num_shards = 10,
                  gen_kwargs = [(''directory'', os_path_join imdb_path [''aclImdb'', ''test''])]\<rparr>],
           vocab_builds)"
      by (simp add: run)
  }
  show "map (\<lambda>c. (name c, encoder_cls (text_encoder_config c) = Some SubwordTextEncoder))
       BUILDER_CONFIGS =
     [(''plain_text'', False), (''bytes'', False), (''subwords8k'', True), (''subwords32k'', True)]"
    by (rule builder_configs_text_encoders)
qed

theorem split_generators_vocabulary_builds_witness:
  "snd (split_generators ''imdb_reviews'' (BUILDER_CONFIGS ! 2) extract_to_data ascii_isspace
          (\<lambda>ex. ex) (three_reviews ''/data/aclImdb/train'') []) =
     [(Some 8192, [''Great movie!'', ''Loved it.'', ''Dull.''])] \<and>
   split_generators ''imdb_reviews'' (BUILDER_CONFIGS ! 1) extract_to_data ascii_isspace
     (\<lambda>ex. ex) (three_reviews ''/data/aclImdb/train'') ([] :: (nat option \<times> string list) list) =
     (Inr [\<lparr>split_name = TRAIN, num_shards = 10,
             gen_kwargs = [(''directory'', ''/data/aclImdb/train'')]\<rparr>,
           \<lparr>split_name = TEST, num_shards = 10,
             gen_kwargs = [(''directory'', ''/data/aclImdb/test'')]\<rparr>], [])"
proof
  show "snd (split_generators ''imdb_reviews'' (BUILDER_CONFIGS ! 2) extract_to_data ascii_isspace
          (\<lambda>ex. ex) (three_reviews ''/data/aclImdb/train'') []) =
     [(Some 8192, [''Great movie!'', ''Loved it.'', ''Dull.''])]"
    using split_generators_vocabulary_builds
      [where download_and_extract = extract_to_data and imdb_path = "''/data''"
         and builder_config = "BUILDER_CONFIGS ! 2" and isspace = ascii_isspace
         and encode_example = "\<lambda>ex. ex" and fs = "three_reviews ''/data/aclImdb/train''"
         and self_name = "''imdb_reviews''" and vocab_builds = "[]",
       OF extract_to_data_root]
    by (simp add: data_dirs three_reviews_data_feed BUILDER_CONFIGS_def IMDBReviewsConfig_init_def)
  show "split_generators ''imdb_reviews'' (BUILDER_CONFIGS ! 1) extract_to_data ascii_isspace
     (\<lambda>ex. ex) (three_reviews ''/data/aclImdb/train'') ([] :: (nat option \<times> string list) list) =
     (Inr [\<lparr>split_name = TRAIN, num_shards = 10,
             gen_kwargs = [(''directory'', ''/data/aclImdb/train'')]\<rparr>,
           \<lparr>split_name = TEST, num_shards = 10,
             gen_kwargs = [(''directory'', ''/data/aclImdb/test'')]\<rparr>], [])"
    using split_generators_vocabulary_builds
      [where download_and_extract = extract_to_data and imdb_path = "''/data''"
         and builder_config = "BUILDER_CONFIGS ! 1" and isspace = ascii_isspace
         and encode_example = "\<lambda>ex. ex" and fs = "three_reviews ''/data/aclImdb/train''"
         and self_name = "''imdb_reviews''" and vocab_builds = "[]",
       OF extract_to_data_root]
    by (simp add: data_dirs BUILDER_CONFIGS_def IMDBReviewsConfig_init_def)
qed

subsection \<open>Dataset metadata\<close>

text \<open>
  C10. Whatever the builder's name and configuration, the label feature of the dataset
  metadata is a class label whose names are \<open>neg\<close>, \<open>pos\<close>, in this order: \<open>neg\<close>
  is at index 0 and \<open>pos\<close> at index 1 of the list of names.
\<close>

theorem info_label_names:
  "map_of (features (info self_name builder_config)) ''label'' = Some (ClassLabel [''neg'', ''pos'']) \<and>
   (\<exists>names. map_of (features (info self_name builder_config)) ''label'' = Some (ClassLabel names) \<and>
      length names = 2 \<and> names ! 0 = ''neg'' \<and> names ! 1 = ''pos'')"
  by (simp add: info_def)

end
